theory Spec2Isabelle
  imports
    Main
    "HOL-Library.List_Lexorder"
    "HOL-Library.Char_ord"
    "HOL-Library.Product_Lexorder"
    "HOL-Library.Multiset"
    "HOL-Library.Sublist"
begin

section \<open>Data model (models.py)\<close>

text \<open>
  The pydantic models of \<^verbatim>\<open>models.py\<close>. A Python \<^verbatim>\<open>str\<close> is a \<^typ>\<open>string\<close>; one
  \<^typ>\<open>char\<close> stands for one character of the Python string, and the order on strings is the
  lexicographic order of the character codes, which is how both Python and SQLite's
  default BINARY collation compare text.

  The three meal attributes of a day are declared as \<^verbatim>\<open>DailyMeal\<close>, but
  \<^verbatim>\<open>validate_plan_structure\<close> reads them with \<^verbatim>\<open>getattr(day, meal_type, None)\<close> and
  rejects a falsy value: at run time a meal can be absent or \<^verbatim>\<open>None\<close>. The model keeps
  that case as \<^term>\<open>None\<close>. The other dynamic checks of the validator
  (\<^verbatim>\<open>hasattr(plan, field)\<close>, \<^verbatim>\<open>isinstance(plan.plan, list)\<close>,
  \<^verbatim>\<open>isinstance(week, list)\<close>, \<^verbatim>\<open>isinstance(day, DailyPlan)\<close> and the two
  \<^verbatim>\<open>hasattr(meal, ...)\<close>) always succeed on values of these record types.
\<close>

record DailyMeal =
  suggestion :: string
  calories :: string

record DailyPlan =
  day :: string
  titles :: string
  details :: string
  breakfast :: "DailyMeal option"
  lunch :: "DailyMeal option"
  dinner :: "DailyMeal option"

type_synonym WeeklyPlan = "DailyPlan list"

record RunningPlan =
  motivation :: string
  feedback :: string
  supplement_suggestion :: string
  plan :: "WeeklyPlan list"

text \<open>The list \<^verbatim>\<open>['breakfast', 'lunch', 'dinner']\<close> that three loops of the source run over.\<close>

definition meal_types :: "string list" where
  "meal_types = [''breakfast'', ''lunch'', ''dinner'']"

text \<open>
  \<^verbatim>\<open>getattr(day, meal_type, None)\<close>: the attribute of that name, \<^term>\<open>None\<close> when the
  attribute is absent or holds \<^verbatim>\<open>None\<close>.
\<close>

definition getattr_meal :: "DailyPlan \<Rightarrow> string \<Rightarrow> DailyMeal option" where
  "getattr_meal d meal_type =
     (if meal_type = ''breakfast'' then breakfast d
      else if meal_type = ''lunch'' then lunch d
      else if meal_type = ''dinner'' then dinner d
      else None)"

text \<open>Every day of the plan carries its three meals, as the pydantic schema declares.\<close>

definition has_all_meals :: "DailyPlan \<Rightarrow> bool" where
  "has_all_meals d \<longleftrightarrow> breakfast d \<noteq> None \<and> lunch d \<noteq> None \<and> dinner d \<noteq> None"

definition plan_well_typed :: "RunningPlan \<Rightarrow> bool" where
  "plan_well_typed p \<longleftrightarrow> list_all (list_all has_all_meals) (plan p)"

section \<open>Structure validation (output_generators.py, prompt\_templates.py)\<close>

text \<open>
  \<^verbatim>\<open>validate_plan_structure\<close> of \<^verbatim>\<open>output_generators.py\<close>. Each \<^verbatim>\<open>for\<close> loop with an
  early \<^verbatim>\<open>return False\<close> is a recursion over the list that stops at the first failure.
\<close>

fun check_meals :: "DailyPlan \<Rightarrow> string list \<Rightarrow> bool" where
  "check_meals d [] = True"
| "check_meals d (meal_type # rest) =
     (case getattr_meal d meal_type of
        None \<Rightarrow> False
      | Some meal \<Rightarrow> check_meals d rest)"

fun check_days :: "DailyPlan list \<Rightarrow> bool" where
  "check_days [] = True"
| "check_days (d # ds) = (if \<not> check_meals d meal_types then False else check_days ds)"

fun check_weeks :: "WeeklyPlan list \<Rightarrow> bool" where
  "check_weeks [] = True"
| "check_weeks (week # weeks) =
     (if length week = 0 then False
      else if \<not> check_days week then False
      else check_weeks weeks)"

definition validate_plan_structure :: "RunningPlan \<Rightarrow> bool" where
  "validate_plan_structure p =
     (if length (plan p) = 0 then False else check_weeks (plan p))"

text \<open>
  The copy in \<^verbatim>\<open>src/prompt_templates.py\<close> tests \<^verbatim>\<open>isinstance(meal, DailyMeal)\<close> on
  \<^verbatim>\<open>getattr(day, meal_type)\<close>; an absent attribute raises inside the \<^verbatim>\<open>try\<close> and the
  handler returns \<^verbatim>\<open>False\<close>, so both failures are the \<^term>\<open>None\<close> branch.
\<close>

fun pt_check_meals :: "DailyPlan \<Rightarrow> string list \<Rightarrow> bool" where
  "pt_check_meals d [] = True"
| "pt_check_meals d (meal_type # rest) =
     (case getattr_meal d meal_type of
        None \<Rightarrow> False
      | Some meal \<Rightarrow> pt_check_meals d rest)"

fun pt_check_weeks :: "WeeklyPlan list \<Rightarrow> bool" where
  "pt_check_weeks [] = True"
| "pt_check_weeks (week # weeks) =
     (if length week = 0 then False
      else if \<not> list_all (\<lambda>d. pt_check_meals d meal_types) week then False
      else pt_check_weeks weeks)"

definition pt_validate_plan_structure :: "RunningPlan \<Rightarrow> bool" where
  "pt_validate_plan_structure p =
     (if length (plan p) = 0 then False else pt_check_weeks (plan p))"

section \<open>Plan store (database.py)\<close>

text \<open>
  The SQLite file as a value: the three tables of \<^verbatim>\<open>create_database_schema\<close>, each a list
  of rows in insertion order, and the \<^verbatim>\<open>sqlite_sequence\<close> counter that
  \<^verbatim>\<open>AUTOINCREMENT\<close> keeps for each table (the largest rowid ever given out). Row ids,
  plan ids and week numbers are Python integers, hence \<^typ>\<open>int\<close>. The row ids that
  SQLite gives out and the week numbers that \<^verbatim>\<open>enumerate\<close> counts are 64-bit integers in
  every run; an insert into a table whose row ids are used up (SQLite's error "database or
  disk is full") is not modelled, and the theorem about a save followed by a load assumes
  that the id the save returns is a 64-bit integer.
  \<^verbatim>\<open>created_at\<close> holds the text that
  \<^verbatim>\<open>CURRENT_TIMESTAMP\<close> produces; the clock is an argument of the insert.
\<close>

record running_plan_row =
  rp_id :: int
  rp_motivation :: string
  rp_feedback :: string
  rp_supplement_suggestion :: string
  rp_created_at :: string

record daily_plan_row =
  dp_id :: int
  dp_running_plan_id :: int
  dp_day :: string
  dp_titles :: string
  dp_details :: string
  dp_week_number :: int

record daily_meal_row =
  dm_id :: int
  dm_daily_plan_id :: int
  dm_meal_type :: string
  dm_suggestion :: string
  dm_calories :: string

record database =
  running_plan :: "running_plan_row list"
  daily_plan :: "daily_plan_row list"
  daily_meal :: "daily_meal_row list"
  seq_running_plan :: int
  seq_daily_plan :: int
  seq_daily_meal :: int

text \<open>
  What a function of \<^verbatim>\<open>database.py\<close> works on: \<^term>\<open>Some db\<close> when
  \<^verbatim>\<open>sqlite3.connect\<close> and the statements succeed on the file, \<^term>\<open>None\<close> when sqlite3
  raises (the file cannot be opened, the tables are missing), which sends every function
  into its \<^verbatim>\<open>except Exception\<close> branch.
\<close>

type_synonym store = "database option"

text \<open>
  An integer that sqlite3 can bind to a \<^verbatim>\<open>?\<close> of a statement: SQLite integers are signed
  64-bit, and \<^verbatim>\<open>cur.execute\<close> raises OverflowError for a Python integer outside that
  range. The plan id that a caller passes to \<^verbatim>\<open>load_plan_from_db\<close> or \<^verbatim>\<open>delete_plan\<close>
  is such a parameter.
\<close>

definition sqlite_int64 :: "int \<Rightarrow> bool" where
  "sqlite_int64 i \<longleftrightarrow> - 9223372036854775808 \<le> i \<and> i \<le> 9223372036854775807"

text \<open>The database right after \<^verbatim>\<open>create_database_schema\<close> on a new file.\<close>

definition empty_database :: database where
  "empty_database = \<lparr>running_plan = [], daily_plan = [], daily_meal = [],
     seq_running_plan = 0, seq_daily_plan = 0, seq_daily_meal = 0\<rparr>"

text \<open>
  The rowid of an \<^verbatim>\<open>INTEGER PRIMARY KEY AUTOINCREMENT\<close> insert (\<^verbatim>\<open>cur.lastrowid\<close>): one
  more than the largest rowid the table holds or has ever held.
\<close>

definition next_rowid :: "int \<Rightarrow> int list \<Rightarrow> int" where
  "next_rowid seq ids = fold max ids seq + 1"

definition insert_running_plan ::
  "string \<Rightarrow> string \<Rightarrow> string \<Rightarrow> string \<Rightarrow> database \<Rightarrow> int \<times> database" where
  "insert_running_plan m f s now db =
     (let rowid = next_rowid (seq_running_plan db) (map rp_id (running_plan db))
      in (rowid,
          db\<lparr>running_plan := running_plan db @
                [\<lparr>rp_id = rowid, rp_motivation = m, rp_feedback = f,
                  rp_supplement_suggestion = s, rp_created_at = now\<rparr>],
             seq_running_plan := rowid\<rparr>))"

definition insert_daily_plan ::
  "int \<Rightarrow> string \<Rightarrow> string \<Rightarrow> string \<Rightarrow> int \<Rightarrow> database \<Rightarrow> int \<times> database" where
  "insert_daily_plan running_plan_id d t dt week_num db =
     (let rowid = next_rowid (seq_daily_plan db) (map dp_id (daily_plan db))
      in (rowid,
          db\<lparr>daily_plan := daily_plan db @
                [\<lparr>dp_id = rowid, dp_running_plan_id = running_plan_id, dp_day = d,
                  dp_titles = t, dp_details = dt, dp_week_number = week_num\<rparr>],
             seq_daily_plan := rowid\<rparr>))"

definition insert_daily_meal ::
  "int \<Rightarrow> string \<Rightarrow> string \<Rightarrow> string \<Rightarrow> database \<Rightarrow> int \<times> database" where
  "insert_daily_meal daily_plan_id meal_type sg cal db =
     (let rowid = next_rowid (seq_daily_meal db) (map dm_id (daily_meal db))
      in (rowid,
          db\<lparr>daily_meal := daily_meal db @
                [\<lparr>dm_id = rowid, dm_daily_plan_id = daily_plan_id, dm_meal_type = meal_type,
                  dm_suggestion = sg, dm_calories = cal\<rparr>],
             seq_daily_meal := rowid\<rparr>))"

subsection \<open>save\_plan\_to\_db\<close>

text \<open>
  The three nested loops of \<^verbatim>\<open>save_plan_to_db\<close>. \<^verbatim>\<open>meal.suggestion\<close> on a meal that is
  \<^verbatim>\<open>None\<close> raises AttributeError: the result \<^term>\<open>None\<close> of the loops.
\<close>

fun save_meals :: "int \<Rightarrow> DailyPlan \<Rightarrow> string list \<Rightarrow> database \<Rightarrow> database option" where
  "save_meals daily_plan_id daily [] db = Some db"
| "save_meals daily_plan_id daily (meal_type # rest) db =
     (case getattr_meal daily meal_type of
        None \<Rightarrow> None
      | Some meal \<Rightarrow>
          save_meals daily_plan_id daily rest
            (snd (insert_daily_meal daily_plan_id meal_type (suggestion meal) (calories meal) db)))"

fun save_days :: "int \<Rightarrow> int \<Rightarrow> DailyPlan list \<Rightarrow> database \<Rightarrow> database option" where
  "save_days running_plan_id week_num [] db = Some db"
| "save_days running_plan_id week_num (daily # rest) db =
     (case insert_daily_plan running_plan_id (day daily) (titles daily) (details daily)
             week_num db of
        (daily_plan_id, db1) \<Rightarrow>
          (case save_meals daily_plan_id daily meal_types db1 of
             None \<Rightarrow> None
           | Some db2 \<Rightarrow> save_days running_plan_id week_num rest db2))"

text \<open>\<^verbatim>\<open>enumerate(plan.plan, start=1)\<close>: the week number is carried along and counted up.\<close>

fun save_weeks :: "int \<Rightarrow> int \<Rightarrow> WeeklyPlan list \<Rightarrow> database \<Rightarrow> database option" where
  "save_weeks running_plan_id week_num [] db = Some db"
| "save_weeks running_plan_id week_num (weekly_schedule # rest) db =
     (case save_days running_plan_id week_num weekly_schedule db of
        None \<Rightarrow> None
      | Some db1 \<Rightarrow> save_weeks running_plan_id (week_num + 1) rest db1)"

text \<open>
  The result is the returned id (\<^term>\<open>None\<close> for Python's \<^verbatim>\<open>None\<close>) and the store afterwards.
  When an exception leaves the function before \<^verbatim>\<open>conn.commit()\<close>, the open transaction is
  dropped with the connection and the file is as before.
\<close>

definition save_plan_to_db :: "RunningPlan \<Rightarrow> string \<Rightarrow> store \<Rightarrow> int option \<times> store" where
  "save_plan_to_db p now st =
     (case st of
        None \<Rightarrow> (None, None)
      | Some db \<Rightarrow>
          (case insert_running_plan (motivation p) (feedback p) (supplement_suggestion p) now db of
             (running_plan_id, db1) \<Rightarrow>
               (case save_weeks running_plan_id 1 (plan p) db1 of
                  None \<Rightarrow> (None, Some db)
                | Some db2 \<Rightarrow> (Some running_plan_id, Some db2))))"

subsection \<open>load\_plan\_from\_db\<close>

text \<open>
  One row of the ten-column \<^verbatim>\<open>SELECT\<close> of \<^verbatim>\<open>load_plan_from_db\<close>. The columns of a
  \<^verbatim>\<open>LEFT JOIN\<close> that found no meal row are NULL, Python's \<^verbatim>\<open>None\<close>.
\<close>

record daily_data_row =
  dd_day :: string
  dd_titles :: string
  dd_details :: string
  dd_week_number :: int
  dd_breakfast_suggestion :: "string option"
  dd_breakfast_calories :: "string option"
  dd_lunch_suggestion :: "string option"
  dd_lunch_calories :: "string option"
  dd_dinner_suggestion :: "string option"
  dd_dinner_calories :: "string option"

text \<open>
  \<^verbatim>\<open>LEFT JOIN daily_meal dm ON dp.id = dm.daily_plan_id AND dm.meal_type = t\<close>: the
  (suggestion, calories) of every matching meal row, or one pair of NULLs when none matches.
\<close>

definition left_join_meal ::
  "daily_meal_row list \<Rightarrow> int \<Rightarrow> string \<Rightarrow> (string option \<times> string option) list" where
  "left_join_meal meals dpid meal_type =
     (case filter (\<lambda>m. dm_daily_plan_id m = dpid \<and> dm_meal_type m = meal_type) meals of
        [] \<Rightarrow> [(None, None)]
      | hits \<Rightarrow> map (\<lambda>m. (Some (dm_suggestion m), Some (dm_calories m))) hits)"

definition joined_rows :: "daily_meal_row list \<Rightarrow> daily_plan_row \<Rightarrow> daily_data_row list" where
  "joined_rows meals dp =
     concat (map (\<lambda>b. concat (map (\<lambda>l. map (\<lambda>dn.
         \<lparr>dd_day = dp_day dp, dd_titles = dp_titles dp, dd_details = dp_details dp,
          dd_week_number = dp_week_number dp,
          dd_breakfast_suggestion = fst b, dd_breakfast_calories = snd b,
          dd_lunch_suggestion = fst l, dd_lunch_calories = snd l,
          dd_dinner_suggestion = fst dn, dd_dinner_calories = snd dn\<rparr>)
       (left_join_meal meals (dp_id dp) ''dinner''))
       (left_join_meal meals (dp_id dp) ''lunch'')))
       (left_join_meal meals (dp_id dp) ''breakfast''))"

text \<open>The joined rows \<^verbatim>\<open>WHERE dp.running_plan_id = ?\<close>, before the \<^verbatim>\<open>ORDER BY\<close>.\<close>

definition daily_data_unordered :: "int \<Rightarrow> database \<Rightarrow> daily_data_row list" where
  "daily_data_unordered plan_id db =
     concat (map (joined_rows (daily_meal db))
       (filter (\<lambda>dp. dp_running_plan_id dp = plan_id) (daily_plan db)))"

text \<open>
  \<^verbatim>\<open>ORDER BY dp.week_number, dp.day\<close>. SQLite leaves the order of rows with equal keys
  open; the model keeps them in table order (a stable sort), and no theorem below depends
  on the order of such ties.
\<close>

definition daily_data :: "int \<Rightarrow> database \<Rightarrow> daily_data_row list" where
  "daily_data plan_id db =
     sort_key (\<lambda>row. (dd_week_number row, dd_day row)) (daily_data_unordered plan_id db)"

text \<open>
  The pydantic constructors: a \<^verbatim>\<open>None\<close> for a \<^verbatim>\<open>str\<close> field raises ValidationError
  (the result \<^term>\<open>None\<close>).
\<close>

definition DailyMeal_new :: "string option \<Rightarrow> string option \<Rightarrow> DailyMeal option" where
  "DailyMeal_new sg cal =
     (case sg of
        None \<Rightarrow> None
      | Some s \<Rightarrow> (case cal of None \<Rightarrow> None | Some c \<Rightarrow> Some \<lparr>suggestion = s, calories = c\<rparr>))"

definition DailyPlan_new :: "daily_data_row \<Rightarrow> DailyPlan option" where
  "DailyPlan_new row =
     (case DailyMeal_new (dd_breakfast_suggestion row) (dd_breakfast_calories row) of
        None \<Rightarrow> None
      | Some b \<Rightarrow>
     (case DailyMeal_new (dd_lunch_suggestion row) (dd_lunch_calories row) of
        None \<Rightarrow> None
      | Some l \<Rightarrow>
     (case DailyMeal_new (dd_dinner_suggestion row) (dd_dinner_calories row) of
        None \<Rightarrow> None
      | Some dn \<Rightarrow>
          Some \<lparr>day = dd_day row, titles = dd_titles row, details = dd_details row,
                breakfast = Some b, lunch = Some l, dinner = Some dn\<rparr>)))"

text \<open>
  The dictionary \<^verbatim>\<open>weeks\<close> as an association list in insertion order, with distinct keys.
  \<^verbatim>\<open>weeks[week_num].append(daily_plan)\<close>:
\<close>

fun weeks_append :: "(int \<times> DailyPlan list) list \<Rightarrow> int \<Rightarrow> DailyPlan \<Rightarrow> (int \<times> DailyPlan list) list"
  where
  "weeks_append [] k d = []"
| "weeks_append ((k', ds) # rest) k d =
     (if k' = k then (k', ds @ [d]) # rest else (k', ds) # weeks_append rest k d)"

text \<open>The loop \<^verbatim>\<open>for row in daily_data\<close>; the row's week is entered with \<^verbatim>\<open>[]\<close> when new.\<close>

fun reconstruct_weeks ::
  "daily_data_row list \<Rightarrow> (int \<times> DailyPlan list) list \<Rightarrow> (int \<times> DailyPlan list) list option"
  where
  "reconstruct_weeks [] weeks = Some weeks"
| "reconstruct_weeks (row # rows) weeks =
     (let week_num = dd_week_number row;
          weeks1 = (if week_num \<notin> set (map fst weeks) then weeks @ [(week_num, [])] else weeks)
      in case DailyPlan_new row of
           None \<Rightarrow> None
         | Some daily \<Rightarrow> reconstruct_weeks rows (weeks_append weeks1 week_num daily))"

text \<open>
  \<^verbatim>\<open>weeks[week_num]\<close> for a key of the dictionary (the \<^term>\<open>None\<close> branch, a KeyError, is
  never taken: the keys looked up are the dictionary's own).
\<close>

definition weeks_get :: "(int \<times> DailyPlan list) list \<Rightarrow> int \<Rightarrow> DailyPlan list" where
  "weeks_get weeks k = (case map_of weeks k of None \<Rightarrow> [] | Some ds \<Rightarrow> ds)"

text \<open>
  \<^verbatim>\<open>[(k, weeks[k]) for k in sorted(weeks.keys())]\<close>; \<^verbatim>\<open>plan_weeks\<close> is its second
  components.
\<close>

definition numbered_weeks :: "(int \<times> DailyPlan list) list \<Rightarrow> (int \<times> DailyPlan list) list" where
  "numbered_weeks weeks = map (\<lambda>k. (k, weeks_get weeks k)) (sort (map fst weeks))"

text \<open>
  \<^verbatim>\<open>load_plan_from_db\<close> returns \<^verbatim>\<open>None\<close> both when the plan row is missing (after
  printing "not found") and when an exception is caught; the result type keeps the two
  apart. The first \<^verbatim>\<open>cur.execute\<close> binds \<^verbatim>\<open>plan_id\<close>: an id outside the 64-bit range
  raises there and ends in the \<^verbatim>\<open>except\<close> branch.
\<close>

datatype load_failure = NotFound | LoadError

definition fetch_plan_row :: "int \<Rightarrow> database \<Rightarrow> running_plan_row option" where
  "fetch_plan_row plan_id db = find (\<lambda>r. rp_id r = plan_id) (running_plan db)"

definition load_numbered_weeks :: "int \<Rightarrow> database \<Rightarrow> (int \<times> DailyPlan list) list option" where
  "load_numbered_weeks plan_id db = map_option numbered_weeks (reconstruct_weeks (daily_data plan_id db) [])"

definition load_plan_from_db :: "int \<Rightarrow> store \<Rightarrow> load_failure + RunningPlan" where
  "load_plan_from_db plan_id st =
     (case st of
        None \<Rightarrow> Inl LoadError
      | Some db \<Rightarrow>
          if \<not> sqlite_int64 plan_id then Inl LoadError
          else
          (case fetch_plan_row plan_id db of
             None \<Rightarrow> Inl NotFound
           | Some plan_data \<Rightarrow>
               (case load_numbered_weeks plan_id db of
                  None \<Rightarrow> Inl LoadError
                | Some weeks \<Rightarrow>
                    Inr \<lparr>motivation = rp_motivation plan_data,
                         feedback = rp_feedback plan_data,
                         supplement_suggestion = rp_supplement_suggestion plan_data,
                         plan = map snd weeks\<rparr>)))"

subsection \<open>list\_all\_plans\<close>

record plan_summary =
  ps_id :: int
  ps_motivation :: string
  ps_created_at :: string

text \<open>
  \<^verbatim>\<open>ORDER BY created_at DESC\<close> (ties in table order reversed; no theorem depends on it).
\<close>

definition order_by_created_at_desc :: "running_plan_row list \<Rightarrow> running_plan_row list" where
  "order_by_created_at_desc rows = rev (sort_key rp_created_at rows)"

text \<open>\<^verbatim>\<open>plan[1][:50] + "..." if len(plan[1]) > 50 else plan[1]\<close>\<close>

definition summary_motivation :: "string \<Rightarrow> string" where
  "summary_motivation m = (if length m > 50 then take 50 m @ ''...'' else m)"

definition list_all_plans :: "store \<Rightarrow> plan_summary list" where
  "list_all_plans st =
     (case st of
        None \<Rightarrow> []
      | Some db \<Rightarrow>
          map (\<lambda>plan_row. \<lparr>ps_id = rp_id plan_row,
                        ps_motivation = summary_motivation (rp_motivation plan_row),
                        ps_created_at = rp_created_at plan_row\<rparr>)
            (order_by_created_at_desc (running_plan db)))"

subsection \<open>delete\_plan\<close>

text \<open>
  The three \<^verbatim>\<open>DELETE\<close> statements, in the order of the source. Each binds
  \<^verbatim>\<open>plan_id\<close>; for an id outside the 64-bit range the first one raises before anything
  is deleted, and \<^verbatim>\<open>delete_plan\<close> returns \<^verbatim>\<open>False\<close> from its \<^verbatim>\<open>except\<close> branch.
\<close>

definition delete_daily_meals :: "int \<Rightarrow> database \<Rightarrow> database" where
  "delete_daily_meals plan_id db =
     db\<lparr>daily_meal :=
          filter (\<lambda>m. dm_daily_plan_id m \<notin>
                       set (map dp_id (filter (\<lambda>dp. dp_running_plan_id dp = plan_id) (daily_plan db))))
            (daily_meal db)\<rparr>"

definition delete_daily_plans :: "int \<Rightarrow> database \<Rightarrow> database" where
  "delete_daily_plans plan_id db =
     db\<lparr>daily_plan := filter (\<lambda>dp. dp_running_plan_id dp \<noteq> plan_id) (daily_plan db)\<rparr>"

definition delete_running_plan :: "int \<Rightarrow> database \<Rightarrow> database" where
  "delete_running_plan plan_id db =
     db\<lparr>running_plan := filter (\<lambda>r. rp_id r \<noteq> plan_id) (running_plan db)\<rparr>"

definition delete_plan :: "int \<Rightarrow> store \<Rightarrow> bool \<times> store" where
  "delete_plan plan_id st =
     (case st of
        None \<Rightarrow> (False, None)
      | Some db \<Rightarrow>
          if \<not> sqlite_int64 plan_id then (False, Some db)
          else
          (True,
           Some (delete_running_plan plan_id
                  (delete_daily_plans plan_id (delete_daily_meals plan_id db)))))"

text \<open>
  The states the functions above keep the file in: every reference to a parent row names
  an id that its table has given out. \<^term>\<open>empty_database\<close> is such a state, and
  \<^verbatim>\<open>save_plan_to_db\<close> and \<^verbatim>\<open>delete_plan\<close> preserve it.
\<close>

definition day_refs_ok :: "database \<Rightarrow> bool" where
  "day_refs_ok db \<longleftrightarrow>
     list_all (\<lambda>dp. dp_running_plan_id dp \<le> seq_running_plan db) (daily_plan db)"

definition meal_refs_ok :: "database \<Rightarrow> bool" where
  "meal_refs_ok db \<longleftrightarrow>
     list_all (\<lambda>m. dm_daily_plan_id m \<le> seq_daily_plan db) (daily_meal db)"

definition db_consistent :: "database \<Rightarrow> bool" where
  "db_consistent db \<longleftrightarrow> day_refs_ok db \<and> meal_refs_ok db"

text \<open>
  The row that the \<^verbatim>\<open>SELECT\<close> of \<^verbatim>\<open>load_plan_from_db\<close> yields for a day stored under a
  week number, and the rows of a whole plan in the order \<^verbatim>\<open>save_plan_to_db\<close> inserts them
  (used to state what a save leaves in the tables).
\<close>

definition row_of :: "int \<Rightarrow> DailyPlan \<Rightarrow> daily_data_row" where
  "row_of week_num d =
     \<lparr>dd_day = day d, dd_titles = titles d, dd_details = details d,
      dd_week_number = week_num,
      dd_breakfast_suggestion = map_option suggestion (breakfast d),
      dd_breakfast_calories = map_option calories (breakfast d),
      dd_lunch_suggestion = map_option suggestion (lunch d),
      dd_lunch_calories = map_option calories (lunch d),
      dd_dinner_suggestion = map_option suggestion (dinner d),
      dd_dinner_calories = map_option calories (dinner d)\<rparr>"

fun flat_rows :: "int \<Rightarrow> WeeklyPlan list \<Rightarrow> daily_data_row list" where
  "flat_rows week_num [] = []"
| "flat_rows week_num (w # ws) = map (row_of week_num) w @ flat_rows (week_num + 1) ws"

text \<open>A \<^verbatim>\<open>daily_meal\<close> row as \<^verbatim>\<open>save_plan_to_db\<close> inserts it for a meal.\<close>

definition meal_row :: "int \<Rightarrow> int \<Rightarrow> string \<Rightarrow> DailyMeal \<Rightarrow> daily_meal_row" where
  "meal_row i dpid t m = \<lparr>dm_id = i, dm_daily_plan_id = dpid, dm_meal_type = t,
     dm_suggestion = suggestion m, dm_calories = calories m\<rparr>"

section \<open>HTML rendering (output_generators.py)\<close>

text \<open>\<^verbatim>\<open>str(n)\<close> for a Python integer: its decimal digits, with a minus sign when negative.\<close>

definition digit_char :: "nat \<Rightarrow> char" where
  "digit_char n = ''0123456789'' ! n"

function str_nat :: "nat \<Rightarrow> string" where
  "str_nat n = (if n < 10 then [digit_char n] else str_nat (n div 10) @ [digit_char (n mod 10)])"
  by pat_completeness auto
termination
  by (relation "measure id") auto

definition str_int :: "int \<Rightarrow> string" where
  "str_int i = (if i < 0 then ''-'' @ str_nat (nat (- i)) else str_nat (nat i))"

text \<open>
  The pieces of the template of \<^verbatim>\<open>generate_html_training_plan\<close>, character for character;
  a field of an f-string is the field's text itself. The three strings written with
  \<^verbatim>\<open>\\n\<close> in the source end in a backslash and the letter n, not in a line break.
\<close>

definition html_head :: string where
  \<open>html_head =
     ''\<newline>'' @
     ''<!DOCTYPE html>\<newline>'' @
     ''<html lang="en">\<newline>'' @
     ''<head>\<newline>'' @
     ''<meta charset="UTF-8">\<newline>'' @
     ''<title>Your Running Plan</title>\<newline>'' @
     ''<link rel="stylesheet" href="style.css">\<newline>'' @
     ''</head>\<newline>''\<close>

definition html_header :: "RunningPlan \<Rightarrow> string" where
  \<open>html_header p =
     ''\<newline><body>\<newline><header class="plan-header">\<newline>    '' @
     (''<h1>'' @ motivation p @ ''</h1>'') @
     ''\<newline>    '' @
     (''<p class="plan-feedback">'' @ feedback p @ ''</p>'') @
     ''\<newline>    '' @
     (''<p class="plan-supplements">'' @ supplement_suggestion p @ ''</p>'') @
     ''\<newline></header>\<newline>''\<close>

definition html_grid_open :: string where
  \<open>html_grid_open = ''<div class="week-grid">''\<close>

definition html_week_open :: "int \<Rightarrow> string" where
  \<open>html_week_open week_idx =
     ''    <div class="week">'' @ [CHR 0x5C] @ ''n'' @
     ''      <h2>Week '' @
     str_int week_idx @
     ''</h2>'' @ [CHR 0x5C] @ ''n''\<close>

definition html_day_block ::
  "DailyPlan \<Rightarrow> DailyMeal \<Rightarrow> DailyMeal \<Rightarrow> DailyMeal \<Rightarrow> string" where
  \<open>html_day_block d b l dn =
     ''      <div class="day">\<newline>            '' @
     (''<div class="day-title">'' @ day d @ '' - '' @ titles d @ ''</div>'') @
     ''\<newline>            '' @
     (''<div class="details">'' @ details d @ ''</div>'') @
     ''\<newline>            <div class="meal_plan">\<newline>'' @
     ''            <h4>Nutrition Plan</h4>\<newline>'' @
     ''            <ul>\<newline>                '' @
     (''<li><strong>Breakfast:</strong> '' @ suggestion b @ '' - ('' @ calories b @ '' kcal)</li>'') @
     ''\<newline>                '' @
     (''<li><strong>Lunch:</strong> '' @ suggestion l @ '' - ('' @ calories l @ '' kcal)</li>'') @
     ''\<newline>                '' @
     (''<li><strong>Dinner:</strong> '' @ suggestion dn @ '' - ('' @ calories dn @ '' kcal)</li>'') @
     ''\<newline>            </ul>\<newline>            </div>\<newline>        </div>\<newline>    ''\<close>

definition html_week_close :: string where
  \<open>html_week_close = ''    </div>'' @ [CHR 0x5C] @ ''n''\<close>

definition html_close :: string where
  \<open>html_close = ''  </div>\<newline>'' @
     ''</body>\<newline>'' @
     ''</html>\<newline>''\<close>

text \<open>
  The page of the \<^verbatim>\<open>except\<close> branch, and the text of the AttributeError that
  \<^verbatim>\<open>day.breakfast.suggestion\<close> raises when the meal is \<^verbatim>\<open>None\<close>.
\<close>

definition html_error_page :: "string \<Rightarrow> string" where
  \<open>html_error_page msg = ''<html><body><h1>Error generating HTML</h1><p>'' @
     msg @
     ''</p></body></html>''\<close>

definition none_has_no_suggestion :: string where
  \<open>none_has_no_suggestion =
     [CHR 0x27] @ ''NoneType'' @ [CHR 0x27] @ '' object has no attribute '' @
     [CHR 0x27] @ ''suggestion'' @ [CHR 0x27]\<close>

text \<open>The f-string of one day; \<^term>\<open>None\<close> when one of its meals is \<^verbatim>\<open>None\<close>.\<close>

definition html_day :: "DailyPlan \<Rightarrow> string option" where
  "html_day d =
     (case breakfast d of
        None \<Rightarrow> None
      | Some b \<Rightarrow>
     (case lunch d of
        None \<Rightarrow> None
      | Some l \<Rightarrow>
     (case dinner d of
        None \<Rightarrow> None
      | Some dn \<Rightarrow> Some (html_day_block d b l dn))))"

text \<open>The two loops, with the text built so far (\<^verbatim>\<open>html += ...\<close>) as accumulator.\<close>

fun html_days :: "DailyPlan list \<Rightarrow> string \<Rightarrow> string option" where
  "html_days [] html = Some html"
| "html_days (d # ds) html =
     (case html_day d of
        None \<Rightarrow> None
      | Some block \<Rightarrow> html_days ds (html @ block))"

fun html_weeks :: "int \<Rightarrow> WeeklyPlan list \<Rightarrow> string \<Rightarrow> string option" where
  "html_weeks week_idx [] html = Some html"
| "html_weeks week_idx (weekly # rest) html =
     (case html_days weekly (html @ html_week_open week_idx) of
        None \<Rightarrow> None
      | Some html1 \<Rightarrow> html_weeks (week_idx + 1) rest (html1 @ html_week_close))"

definition generate_html_training_plan :: "RunningPlan \<Rightarrow> string" where
  "generate_html_training_plan p =
     (case html_weeks 1 (plan p) (html_head @ html_header p @ html_grid_open) of
        None \<Rightarrow> html_error_page none_has_no_suggestion
      | Some html \<Rightarrow> html @ html_close)"

section \<open>Image preparation (utils.py)\<close>

text \<open>
  The file system and the Pillow library are not part of the repository; they are the
  environment of the functions, fixed during a call. A path names nothing, or something
  that exists but cannot be opened for reading (a directory, a file without read
  permission; it still has a size), or a file with its bytes. Pillow's \<^verbatim>\<open>Image.open\<close> opens
  the file for reading and identifies the image from its bytes: that part, and the
  standard library's base64 encoder, are parameters that work on bytes.
\<close>

datatype node = Missing | Unreadable nat | File "nat list"

text \<open>
  An image as \<^verbatim>\<open>Image.open\<close> returns it: the attributes that \<^verbatim>\<open>get_image_info\<close> reads
  and what \<^verbatim>\<open>img.verify()\<close> will do (\<^term>\<open>Some\<close> the text of the exception it raises).
\<close>

record pil_image =
  img_size :: "nat \<times> nat"
  img_format :: string
  img_mode :: string
  img_verify :: "string option"

record environment =
  fs :: "string \<Rightarrow> node"
  strerror :: "string \<Rightarrow> string"
  pillow_identify :: "nat list \<Rightarrow> string + pil_image"
  b64encode :: "nat list \<Rightarrow> string"

text \<open>
  The exceptions that appear in \<^verbatim>\<open>utils.py\<close>, each with its text (\<^verbatim>\<open>str(e)\<close>): the two
  that opening a file raises, what Pillow raises for bytes it cannot identify or verify,
  and the two that the functions raise themselves. All are subclasses of
  \<^verbatim>\<open>Exception\<close>, so \<^verbatim>\<open>except Exception\<close> catches each of them.
\<close>

datatype py_exception =
    FileNotFoundError string
  | OSError string
  | PillowError string
  | ValueError string
  | Exception string

fun str_exception :: "py_exception \<Rightarrow> string" where
  "str_exception (FileNotFoundError m) = m"
| "str_exception (OSError m) = m"
| "str_exception (PillowError m) = m"
| "str_exception (ValueError m) = m"
| "str_exception (Exception m) = m"

text \<open>\<^verbatim>\<open>os.path.exists\<close>, \<^verbatim>\<open>open(path, "rb").read()\<close> and \<^verbatim>\<open>os.path.getsize\<close>.\<close>

definition os_path_exists :: "environment \<Rightarrow> string \<Rightarrow> bool" where
  "os_path_exists env path = (fs env path \<noteq> Missing)"

definition open_rb_read :: "environment \<Rightarrow> string \<Rightarrow> py_exception + nat list" where
  "open_rb_read env path =
     (case fs env path of
        Missing \<Rightarrow> Inl (FileNotFoundError (strerror env path))
      | Unreadable n \<Rightarrow> Inl (OSError (strerror env path))
      | File bytes \<Rightarrow> Inr bytes)"

definition os_path_getsize :: "environment \<Rightarrow> string \<Rightarrow> py_exception + nat" where
  "os_path_getsize env path =
     (case fs env path of
        Missing \<Rightarrow> Inl (FileNotFoundError (strerror env path))
      | Unreadable n \<Rightarrow> Inr n
      | File bytes \<Rightarrow> Inr (length bytes))"

text \<open>\<^verbatim>\<open>Image.open(path)\<close> and \<^verbatim>\<open>img.verify()\<close>.\<close>

definition Image_open :: "environment \<Rightarrow> string \<Rightarrow> py_exception + pil_image" where
  "Image_open env path =
     (case open_rb_read env path of
        Inl e \<Rightarrow> Inl e
      | Inr bytes \<Rightarrow>
          (case pillow_identify env bytes of
             Inl m \<Rightarrow> Inl (PillowError m)
           | Inr img \<Rightarrow> Inr img))"

definition Image_verify :: "pil_image \<Rightarrow> py_exception + unit" where
  "Image_verify img = (case img_verify img of Some m \<Rightarrow> Inl (PillowError m) | None \<Rightarrow> Inr ())"

text \<open>
  \<^verbatim>\<open>encode_image\<close>: the handler for FileNotFoundError raises a new one with its own text,
  the handler for every other exception raises \<^verbatim>\<open>Exception("Failed to encode image: ...")\<close>.
\<close>

definition encode_image :: "environment \<Rightarrow> string \<Rightarrow> py_exception + string" where
  "encode_image env image_path =
     (case open_rb_read env image_path of
        Inl (FileNotFoundError m) \<Rightarrow>
          Inl (FileNotFoundError (''Image file not found: '' @ image_path))
      | Inl e \<Rightarrow> Inl (Exception (''Failed to encode image: '' @ str_exception e))
      | Inr bytes \<Rightarrow> Inr (b64encode env bytes))"

text \<open>
  \<^verbatim>\<open>validate_image\<close>: the body of its \<^verbatim>\<open>try\<close>, which can raise, and the function with
  its handler \<^verbatim>\<open>except Exception: return False\<close>. The result type still has room for an
  exception that leaves the function.
\<close>

definition validate_image_try :: "environment \<Rightarrow> string \<Rightarrow> py_exception + bool" where
  "validate_image_try env image_path =
     (if \<not> os_path_exists env image_path then Inr False
      else (case Image_open env image_path of
              Inl e \<Rightarrow> Inl e
            | Inr img \<Rightarrow>
                (case Image_verify img of
                   Inl e \<Rightarrow> Inl e
                 | Inr u \<Rightarrow> Inr True)))"

definition validate_image :: "environment \<Rightarrow> string \<Rightarrow> py_exception + bool" where
  "validate_image env image_path =
     (case validate_image_try env image_path of
        Inl e \<Rightarrow> Inr False
      | Inr b \<Rightarrow> Inr b)"

text \<open>
  \<^verbatim>\<open>get_image_info\<close>: the dictionary with size, format, mode and file size, or the
  dictionary \<^verbatim>\<open>{"error": str(e)}\<close> of its handler.
\<close>

datatype image_info = ImageInfo "nat \<times> nat" string string nat | InfoError string

definition get_image_info_try :: "environment \<Rightarrow> string \<Rightarrow> py_exception + image_info" where
  "get_image_info_try env image_path =
     (case Image_open env image_path of
        Inl e \<Rightarrow> Inl e
      | Inr img \<Rightarrow>
          (case os_path_getsize env image_path of
             Inl e \<Rightarrow> Inl e
           | Inr file_size \<Rightarrow>
               Inr (ImageInfo (img_size img) (img_format img) (img_mode img) file_size)))"

definition get_image_info :: "environment \<Rightarrow> string \<Rightarrow> image_info" where
  "get_image_info env image_path =
     (case get_image_info_try env image_path of
        Inl e \<Rightarrow> InfoError (str_exception e)
      | Inr info \<Rightarrow> info)"

record prepared_image =
  base64_image :: string
  image_info :: image_info
  data_url :: string

text \<open>\<^verbatim>\<open>prepare_image_for_analysis\<close> has no handler: what its callees raise leaves it.\<close>

definition prepare_image_for_analysis :: "environment \<Rightarrow> string \<Rightarrow> py_exception + prepared_image"
  where
  "prepare_image_for_analysis env image_path =
     (case validate_image env image_path of
        Inl e \<Rightarrow> Inl e
      | Inr valid \<Rightarrow>
          if \<not> valid
          then Inl (ValueError (''Invalid or unreadable image: '' @ image_path))
          else (let img_info = get_image_info env image_path
                in case encode_image env image_path of
                     Inl e \<Rightarrow> Inl e
                   | Inr b64 \<Rightarrow>
                       Inr \<lparr>base64_image = b64, image_info = img_info,
                            data_url = ''data:image/jpeg;base64,'' @ b64\<rparr>))"

section \<open>Example values\<close>

definition oatmeal :: DailyMeal where
  "oatmeal = \<lparr>suggestion = ''Oatmeal'', calories = ''350''\<rparr>"

definition salad :: DailyMeal where
  "salad = \<lparr>suggestion = ''Chicken salad'', calories = ''500''\<rparr>"

definition pasta :: DailyMeal where
  "pasta = \<lparr>suggestion = ''Pasta'', calories = ''about 700''\<rparr>"

definition tuesday_run :: DailyPlan where
  "tuesday_run = \<lparr>day = ''Tuesday'', titles = ''Easy run'', details = ''5 km <easy> & relaxed'',
     breakfast = Some oatmeal, lunch = Some salad, dinner = Some pasta\<rparr>"

definition monday_rest :: DailyPlan where
  "monday_rest = \<lparr>day = ''Monday'', titles = ''Rest'', details = ''Stretching'',
     breakfast = Some oatmeal, lunch = Some salad, dinner = Some pasta\<rparr>"

definition sunday_long :: DailyPlan where
  "sunday_long = \<lparr>day = ''Sunday'', titles = ''Long run'', details = ''12 km'',
     breakfast = Some salad, lunch = Some pasta, dinner = Some oatmeal\<rparr>"

definition example_plan :: RunningPlan where
  "example_plan = \<lparr>motivation = ''You can do it'', feedback = ''Good pace'',
     supplement_suggestion = ''Magnesium'',
     plan = [[tuesday_run, monday_rest], [sunday_long]]\<rparr>"

text \<open>The tables after saving \<^term>\<open>example_plan\<close> into \<^term>\<open>empty_database\<close>.\<close>

definition example_db :: database where
  "example_db =
   \<lparr>running_plan =
      [\<lparr>rp_id = 1, rp_motivation = ''You can do it'', rp_feedback = ''Good pace'',
        rp_supplement_suggestion = ''Magnesium'', rp_created_at = ''2026-01-01 10:00:00''\<rparr>],
    daily_plan =
      [\<lparr>dp_id = 1, dp_running_plan_id = 1, dp_day = ''Tuesday'', dp_titles = ''Easy run'',
        dp_details = ''5 km <easy> & relaxed'', dp_week_number = 1\<rparr>,
       \<lparr>dp_id = 2, dp_running_plan_id = 1, dp_day = ''Monday'', dp_titles = ''Rest'',
        dp_details = ''Stretching'', dp_week_number = 1\<rparr>,
       \<lparr>dp_id = 3, dp_running_plan_id = 1, dp_day = ''Sunday'', dp_titles = ''Long run'',
        dp_details = ''12 km'', dp_week_number = 2\<rparr>],
    daily_meal =
      [\<lparr>dm_id = 1, dm_daily_plan_id = 1, dm_meal_type = ''breakfast'',
        dm_suggestion = ''Oatmeal'', dm_calories = ''350''\<rparr>,
       \<lparr>dm_id = 2, dm_daily_plan_id = 1, dm_meal_type = ''lunch'',
        dm_suggestion = ''Chicken salad'', dm_calories = ''500''\<rparr>,
       \<lparr>dm_id = 3, dm_daily_plan_id = 1, dm_meal_type = ''dinner'',
        dm_suggestion = ''Pasta'', dm_calories = ''about 700''\<rparr>,
       \<lparr>dm_id = 4, dm_daily_plan_id = 2, dm_meal_type = ''breakfast'',
        dm_suggestion = ''Oatmeal'', dm_calories = ''350''\<rparr>,
       \<lparr>dm_id = 5, dm_daily_plan_id = 2, dm_meal_type = ''lunch'',
        dm_suggestion = ''Chicken salad'', dm_calories = ''500''\<rparr>,
       \<lparr>dm_id = 6, dm_daily_plan_id = 2, dm_meal_type = ''dinner'',
        dm_suggestion = ''Pasta'', dm_calories = ''about 700''\<rparr>,
       \<lparr>dm_id = 7, dm_daily_plan_id = 3, dm_meal_type = ''breakfast'',
        dm_suggestion = ''Chicken salad'', dm_calories = ''500''\<rparr>,
       \<lparr>dm_id = 8, dm_daily_plan_id = 3, dm_meal_type = ''lunch'',
        dm_suggestion = ''Pasta'', dm_calories = ''about 700''\<rparr>,
       \<lparr>dm_id = 9, dm_daily_plan_id = 3, dm_meal_type = ''dinner'',
        dm_suggestion = ''Oatmeal'', dm_calories = ''350''\<rparr>],
    seq_running_plan = 1, seq_daily_plan = 3, seq_daily_meal = 9\<rparr>"

definition plan_row_only_db :: database where
  "plan_row_only_db = example_db\<lparr>daily_plan := [], daily_meal := []\<rparr>"

text \<open>
  A directory with a screenshot that Pillow accepts, a text file that it cannot identify, a
  cut-off screenshot that it identifies but does not verify, and a subdirectory; the
  stand-in for base64 writes one letter per byte.
\<close>

definition watch_image :: pil_image where
  "watch_image = \<lparr>img_size = (368, 448), img_format = ''PNG'', img_mode = ''RGB'',
     img_verify = None\<rparr>"

definition example_env :: environment where
  "example_env =
     \<lparr>fs = (\<lambda>p. if p = ''watch.png'' then File [137, 80, 78]
              else if p = ''notes.txt'' then File [104, 101, 108, 108, 111]
              else if p = ''cut.png'' then File [137, 80]
              else if p = ''photos'' then Unreadable 4096
              else Missing),
      strerror = (\<lambda>p. ''cannot open '' @ p),
      pillow_identify = (\<lambda>bytes.
         if bytes = [137, 80, 78] then Inr watch_image
         else if bytes = [137, 80] then Inr (watch_image\<lparr>img_verify := Some ''broken PNG file''\<rparr>)
         else Inl ''cannot identify image file''),
      b64encode = map (\<lambda>b. if b < 128 then CHR ''A'' else CHR ''B'')\<rparr>"

section \<open>Properties of the validator\<close>

lemma check_meals_meal_types: "check_meals d meal_types = has_all_meals d"
  by (auto simp: meal_types_def getattr_meal_def has_all_meals_def split: option.splits)

lemma pt_check_meals_meal_types: "pt_check_meals d meal_types = has_all_meals d"
  by (auto simp: meal_types_def getattr_meal_def has_all_meals_def split: option.splits)

lemma check_days_iff: "check_days ds \<longleftrightarrow> (\<forall>d\<in>set ds. has_all_meals d)"
  by (induction ds) (simp_all add: check_meals_meal_types)

lemma check_weeks_iff:
  "check_weeks ws \<longleftrightarrow> (\<forall>w\<in>set ws. w \<noteq> [] \<and> (\<forall>d\<in>set w. has_all_meals d))"
  by (induction ws) (auto simp: check_days_iff)

lemma pt_check_weeks_iff:
  "pt_check_weeks ws \<longleftrightarrow> (\<forall>w\<in>set ws. w \<noteq> [] \<and> (\<forall>d\<in>set w. has_all_meals d))"
  by (induction ws) (auto simp: pt_check_meals_meal_types list_all_iff)

lemma validate_plan_structure_well_typed:
  "validate_plan_structure p \<Longrightarrow> plan_well_typed p"
  by (auto simp: validate_plan_structure_def check_weeks_iff plan_well_typed_def list_all_iff
      split: if_splits)

lemma validate_plan_structure_nonempty:
  "validate_plan_structure p \<Longrightarrow> plan p \<noteq> [] \<and> (\<forall>w\<in>set (plan p). w \<noteq> [])"
  by (auto simp: validate_plan_structure_def check_weeks_iff split: if_splits)

text \<open>
  C4. \<^verbatim>\<open>validate_plan_structure\<close> (both copies) returns true exactly for the plans whose week
  sequence is non-empty, whose weeks are all non-empty and whose days all carry breakfast,
  lunch and dinner. So it returns false for an empty \<^verbatim>\<open>plan\<close>, for a plan containing a week
  with zero days and for a plan containing a day that lacks one of the three meals, and true
  for every plan that satisfies the invariants.
\<close>

theorem validate_plan_structure_iff:
  "(validate_plan_structure p \<longleftrightarrow>
      plan p \<noteq> [] \<and>
      (\<forall>w\<in>set (plan p). w \<noteq> [] \<and>
         (\<forall>d\<in>set w. breakfast d \<noteq> None \<and> lunch d \<noteq> None \<and> dinner d \<noteq> None))) \<and>
   pt_validate_plan_structure p = validate_plan_structure p"
  by (auto simp: validate_plan_structure_def pt_validate_plan_structure_def check_weeks_iff
      pt_check_weeks_iff has_all_meals_def)

theorem validate_plan_structure_iff_witness:
  "validate_plan_structure example_plan \<and>
   \<not> validate_plan_structure (example_plan\<lparr>plan := []\<rparr>) \<and>
   \<not> validate_plan_structure (example_plan\<lparr>plan := [[tuesday_run], []]\<rparr>) \<and>
   \<not> validate_plan_structure (example_plan\<lparr>plan := [[tuesday_run\<lparr>lunch := None\<rparr>]]\<rparr>)"
  using validate_plan_structure_iff [of example_plan]
    validate_plan_structure_iff [of "example_plan\<lparr>plan := []\<rparr>"]
    validate_plan_structure_iff [of "example_plan\<lparr>plan := [[tuesday_run], []]\<rparr>"]
    validate_plan_structure_iff [of "example_plan\<lparr>plan := [[tuesday_run\<lparr>lunch := None\<rparr>]]\<rparr>"]
  by (simp add: example_plan_def tuesday_run_def monday_rest_def sunday_long_def)

section \<open>Properties of the plan store\<close>

subsection \<open>Row ids\<close>

lemma fold_max_eq_Max: "fold max ids (seq::int) = Max (set (seq # ids))"
  by (simp only: Max.set_eq_fold)

lemma next_rowid_gt_seq: "seq < next_rowid seq ids"
  unfolding next_rowid_def fold_max_eq_Max
  by (simp add: less_add_one order_le_less_trans)

lemma next_rowid_gt_ids: "i \<in> set ids \<Longrightarrow> i < next_rowid seq ids"
proof -
  assume "i \<in> set ids"
  then have "i \<le> Max (set (seq # ids))" by (intro Max_ge) simp_all
  then show ?thesis unfolding next_rowid_def fold_max_eq_Max by simp
qed

subsection \<open>The joins and appended meal rows\<close>

lemma left_join_meal_append_other:
  "\<forall>m\<in>set new. dm_daily_plan_id m \<noteq> dpid \<Longrightarrow>
   left_join_meal (ms @ new) dpid t = left_join_meal ms dpid t"
proof -
  assume "\<forall>m\<in>set new. dm_daily_plan_id m \<noteq> dpid"
  then have "filter (\<lambda>m. dm_daily_plan_id m = dpid \<and> dm_meal_type m = t) new = []"
    by (simp add: filter_empty_conv)
  then show ?thesis by (simp add: left_join_meal_def)
qed

lemma joined_rows_append_other:
  "\<forall>m\<in>set new. dm_daily_plan_id m \<noteq> dp_id dp \<Longrightarrow>
   joined_rows (ms @ new) dp = joined_rows ms dp"
  by (simp add: joined_rows_def left_join_meal_append_other)

lemma left_join_meal_fresh:
  assumes "\<forall>m\<in>set ms. dm_daily_plan_id m \<noteq> dpid"
  shows "left_join_meal (ms @ new) dpid t = left_join_meal new dpid t"
proof -
  from assms have "filter (\<lambda>m. dm_daily_plan_id m = dpid \<and> dm_meal_type m = t) ms = []"
    by (simp add: filter_empty_conv)
  then show ?thesis by (simp add: left_join_meal_def)
qed

lemma joined_rows_new_day:
  assumes fresh: "\<forall>m\<in>set ms. dm_daily_plan_id m \<noteq> dp_id dp"
    and b: "breakfast d = Some b" and l: "lunch d = Some l" and dn: "dinner d = Some dn"
    and dp: "dp_day dp = day d" "dp_titles dp = titles d" "dp_details dp = details d"
      "dp_week_number dp = wk"
  shows "joined_rows (ms @ [meal_row i1 (dp_id dp) ''breakfast'' b,
            meal_row i2 (dp_id dp) ''lunch'' l, meal_row i3 (dp_id dp) ''dinner'' dn]) dp =
         [row_of wk d]"
  unfolding joined_rows_def left_join_meal_fresh [OF fresh]
  by (simp add: left_join_meal_def meal_row_def row_of_def b l dn dp)

lemma save_meals_result:
  assumes b: "breakfast d = Some b" and l: "lunch d = Some l" and dn: "dinner d = Some dn"
  shows "\<exists>db'. save_meals dpid d meal_types db = Some db' \<and>
     running_plan db' = running_plan db \<and> daily_plan db' = daily_plan db \<and>
     seq_running_plan db' = seq_running_plan db \<and> seq_daily_plan db' = seq_daily_plan db \<and>
     (\<exists>i1 i2 i3. daily_meal db' = daily_meal db @ [meal_row i1 dpid ''breakfast'' b,
            meal_row i2 dpid ''lunch'' l, meal_row i3 dpid ''dinner'' dn])"
  by (simp add: meal_types_def getattr_meal_def b l dn insert_daily_meal_def Let_def meal_row_def)


subsection \<open>Saving one day, one week, all weeks\<close>

lemma save_days_Cons:
  "save_days rp wk (d # ds) db =
     (case save_days rp wk [d] db of None \<Rightarrow> None | Some db1 \<Rightarrow> save_days rp wk ds db1)"
  by (simp split: prod.splits option.splits)

lemma save_day_step:
  assumes mok: "meal_refs_ok db" and hm: "has_all_meals d"
  shows "\<exists>db'. save_days rp wk [d] db = Some db' \<and> meal_refs_ok db' \<and>
     running_plan db' = running_plan db \<and> seq_running_plan db' = seq_running_plan db \<and>
     daily_data_unordered rp db' = daily_data_unordered rp db @ [row_of wk d] \<and>
     set (map dp_running_plan_id (daily_plan db')) =
       insert rp (set (map dp_running_plan_id (daily_plan db)))"
proof -
  from hm obtain b l dn where
    m: "breakfast d = Some b" "lunch d = Some l" "dinner d = Some dn"
    by (auto simp: has_all_meals_def)
  define dpid where "dpid = next_rowid (seq_daily_plan db) (map dp_id (daily_plan db))"
  define newday where "newday = \<lparr>dp_id = dpid, dp_running_plan_id = rp, dp_day = day d,
     dp_titles = titles d, dp_details = details d, dp_week_number = wk\<rparr>"
  define db1 where "db1 = db\<lparr>daily_plan := daily_plan db @ [newday], seq_daily_plan := dpid\<rparr>"
  have ins: "insert_daily_plan rp (day d) (titles d) (details d) wk db = (dpid, db1)"
    by (simp add: insert_daily_plan_def Let_def dpid_def db1_def newday_def)
  from save_meals_result [OF m, of dpid db1] obtain db' i1 i2 i3 where
    sm: "save_meals dpid d meal_types db1 = Some db'"
    and rp': "running_plan db' = running_plan db1"
    and dp': "daily_plan db' = daily_plan db1"
    and srp': "seq_running_plan db' = seq_running_plan db1"
    and sdp': "seq_daily_plan db' = seq_daily_plan db1"
    and dm': "daily_meal db' = daily_meal db1 @ [meal_row i1 dpid ''breakfast'' b,
            meal_row i2 dpid ''lunch'' l, meal_row i3 dpid ''dinner'' dn]"
    by blast
  let ?new = "[meal_row i1 dpid ''breakfast'' b, meal_row i2 dpid ''lunch'' l,
            meal_row i3 dpid ''dinner'' dn]"
  have res: "save_days rp wk [d] db = Some db'"
    by (simp add: ins sm)
  have seq_lt: "seq_daily_plan db < dpid"
    unfolding dpid_def by (rule next_rowid_gt_seq)
  have old_meals: "\<forall>m\<in>set (daily_meal db). dm_daily_plan_id m \<noteq> dpid"
    using mok seq_lt by (auto simp: meal_refs_ok_def list_all_iff)
  have old_days: "\<forall>dp\<in>set (daily_plan db). dp_id dp \<noteq> dpid"
    using next_rowid_gt_ids [of _ "map dp_id (daily_plan db)" "seq_daily_plan db"]
    unfolding dpid_def by force
  have mok': "meal_refs_ok db'"
    using mok seq_lt
    by (auto simp: meal_refs_ok_def list_all_iff dm' sdp' db1_def meal_row_def)
  have meals': "daily_meal db' = daily_meal db @ ?new"
    by (simp add: dm' db1_def)
  have days': "daily_plan db' = daily_plan db @ [newday]"
    by (simp add: dp' db1_def)
  have old_join: "joined_rows (daily_meal db') dp = joined_rows (daily_meal db) dp"
    if "dp \<in> set (daily_plan db)" for dp
    unfolding meals' using old_days that
    by (intro joined_rows_append_other) (auto simp: meal_row_def)
  have new_join: "joined_rows (daily_meal db') newday = [row_of wk d]"
    unfolding meals'
    using joined_rows_new_day [of "daily_meal db" newday d b l dn wk i1 i2 i3] old_meals m
    by (simp add: newday_def)
  have "daily_data_unordered rp db' =
      concat (map (joined_rows (daily_meal db'))
        (filter (\<lambda>dp. dp_running_plan_id dp = rp) (daily_plan db))) @ [row_of wk d]"
    by (simp add: daily_data_unordered_def days' new_join) (simp add: newday_def)
  also have "concat (map (joined_rows (daily_meal db'))
        (filter (\<lambda>dp. dp_running_plan_id dp = rp) (daily_plan db))) =
      daily_data_unordered rp db"
    unfolding daily_data_unordered_def
    by (intro arg_cong [where f = concat] map_cong refl old_join) simp
  finally have J: "daily_data_unordered rp db' = daily_data_unordered rp db @ [row_of wk d]" .
  have R: "running_plan db' = running_plan db" "seq_running_plan db' = seq_running_plan db"
    by (simp_all add: rp' srp' db1_def)
  have S: "set (map dp_running_plan_id (daily_plan db')) =
       insert rp (set (map dp_running_plan_id (daily_plan db)))"
    by (simp add: days' newday_def)
  from res mok' R J S show ?thesis by blast
qed

lemma save_days_result:
  assumes "meal_refs_ok db" and "\<forall>d\<in>set ds. has_all_meals d"
  shows "\<exists>db'. save_days rp wk ds db = Some db' \<and> meal_refs_ok db' \<and>
     running_plan db' = running_plan db \<and> seq_running_plan db' = seq_running_plan db \<and>
     daily_data_unordered rp db' = daily_data_unordered rp db @ map (row_of wk) ds \<and>
     set (map dp_running_plan_id (daily_plan db')) \<subseteq>
       insert rp (set (map dp_running_plan_id (daily_plan db)))"
  using assms
proof (induction ds arbitrary: db)
  case Nil
  then show ?case by auto
next
  case (Cons d ds)
  from Cons.prems have hd: "has_all_meals d" and tl: "\<forall>d\<in>set ds. has_all_meals d"
    by simp_all
  from save_day_step [OF Cons.prems(1) hd, of rp wk] obtain db1 where
    1: "save_days rp wk [d] db = Some db1" "meal_refs_ok db1"
      "running_plan db1 = running_plan db" "seq_running_plan db1 = seq_running_plan db"
      "daily_data_unordered rp db1 = daily_data_unordered rp db @ [row_of wk d]"
      "set (map dp_running_plan_id (daily_plan db1)) =
         insert rp (set (map dp_running_plan_id (daily_plan db)))"
    by blast
  from Cons.IH [OF 1(2) tl] obtain db' where
    2: "save_days rp wk ds db1 = Some db'" "meal_refs_ok db'"
      "running_plan db' = running_plan db1" "seq_running_plan db' = seq_running_plan db1"
      "daily_data_unordered rp db' = daily_data_unordered rp db1 @ map (row_of wk) ds"
      "set (map dp_running_plan_id (daily_plan db')) \<subseteq>
         insert rp (set (map dp_running_plan_id (daily_plan db1)))"
    by blast
  have "save_days rp wk (d # ds) db = Some db'"
    by (simp only: save_days_Cons [of rp wk d ds db] 1(1) 2(1) option.case)
  moreover have "daily_data_unordered rp db' =
      daily_data_unordered rp db @ map (row_of wk) (d # ds)"
    by (simp add: 2(5) 1(5))
  moreover have "set (map dp_running_plan_id (daily_plan db')) \<subseteq>
       insert rp (set (map dp_running_plan_id (daily_plan db)))"
    using 2(6) 1(6) by auto
  ultimately show ?case using 2(2,3,4) 1(3,4) by auto
qed

lemma save_weeks_result:
  assumes "meal_refs_ok db" and "\<forall>w\<in>set ws. \<forall>d\<in>set w. has_all_meals d"
  shows "\<exists>db'. save_weeks rp wk ws db = Some db' \<and> meal_refs_ok db' \<and>
     running_plan db' = running_plan db \<and> seq_running_plan db' = seq_running_plan db \<and>
     daily_data_unordered rp db' = daily_data_unordered rp db @ flat_rows wk ws \<and>
     set (map dp_running_plan_id (daily_plan db')) \<subseteq>
       insert rp (set (map dp_running_plan_id (daily_plan db)))"
  using assms
proof (induction ws arbitrary: db wk)
  case Nil
  then show ?case by auto
next
  case (Cons w ws)
  from Cons.prems have hd: "\<forall>d\<in>set w. has_all_meals d"
    and tl: "\<forall>w\<in>set ws. \<forall>d\<in>set w. has_all_meals d"
    by simp_all
  from save_days_result [OF Cons.prems(1) hd, of rp wk] obtain db1 where
    1: "save_days rp wk w db = Some db1" "meal_refs_ok db1"
      "running_plan db1 = running_plan db" "seq_running_plan db1 = seq_running_plan db"
      "daily_data_unordered rp db1 = daily_data_unordered rp db @ map (row_of wk) w"
      "set (map dp_running_plan_id (daily_plan db1)) \<subseteq>
         insert rp (set (map dp_running_plan_id (daily_plan db)))"
    by blast
  from Cons.IH [OF 1(2) tl, of "wk + 1"] obtain db' where
    2: "save_weeks rp (wk + 1) ws db1 = Some db'" "meal_refs_ok db'"
      "running_plan db' = running_plan db1" "seq_running_plan db' = seq_running_plan db1"
      "daily_data_unordered rp db' = daily_data_unordered rp db1 @ flat_rows (wk + 1) ws"
      "set (map dp_running_plan_id (daily_plan db')) \<subseteq>
         insert rp (set (map dp_running_plan_id (daily_plan db1)))"
    by blast
  have "save_weeks rp wk (w # ws) db = Some db'"
    by (simp add: 1(1) 2(1))
  moreover have "daily_data_unordered rp db' = daily_data_unordered rp db @ flat_rows wk (w # ws)"
    by (simp add: 2(5) 1(5))
  moreover have "set (map dp_running_plan_id (daily_plan db')) \<subseteq>
       insert rp (set (map dp_running_plan_id (daily_plan db)))"
    using 2(6) 1(6) by auto
  ultimately show ?case using 2(2,3,4) 1(3,4) by auto
qed

subsection \<open>Rebuilding the weeks\<close>

lemma DailyPlan_new_row_of: "has_all_meals d \<Longrightarrow> DailyPlan_new (row_of wk d) = Some d"
  by (cases d) (auto simp: has_all_meals_def DailyPlan_new_def row_of_def DailyMeal_new_def)

lemma weeks_append_keys: "map fst (weeks_append ws k d) = map fst ws"
  by (induction ws) auto

lemma weeks_get_weeks_append:
  "weeks_get (weeks_append ws k d) k' =
     (if k' = k \<and> k \<in> set (map fst ws) then weeks_get ws k' @ [d] else weeks_get ws k')"
  by (induction ws) (force simp: weeks_get_def)+

lemma weeks_get_new_key:
  "k \<notin> set (map fst ws) \<Longrightarrow> weeks_get (ws @ [(k, [])]) k' = weeks_get ws k'"
  by (force simp: weeks_get_def map_add_def split: option.splits dest!: map_of_SomeD)

lemma reconstruct_weeks_Some_rows:
  "reconstruct_weeks rows weeks = Some weeks' \<Longrightarrow> \<forall>r\<in>set rows. DailyPlan_new r \<noteq> None"
  by (induction rows arbitrary: weeks) (auto simp: Let_def split: option.splits if_splits)

lemma reconstruct_weeks_result:
  assumes "\<forall>r\<in>set rows. DailyPlan_new r \<noteq> None" and "distinct (map fst weeks)"
  shows "\<exists>weeks'. reconstruct_weeks rows weeks = Some weeks' \<and> distinct (map fst weeks') \<and>
     set (map fst weeks') = set (map fst weeks) \<union> dd_week_number ` set rows \<and>
     (\<forall>k. map Some (weeks_get weeks' k) =
        map Some (weeks_get weeks k) @
        map DailyPlan_new (filter (\<lambda>r. dd_week_number r = k) rows))"
  using assms
proof (induction rows arbitrary: weeks)
  case Nil
  then show ?case by simp
next
  case (Cons row rows)
  from Cons.prems obtain d where d: "DailyPlan_new row = Some d" by auto
  define wn where "wn = dd_week_number row"
  define weeks1 where
    "weeks1 = (if wn \<notin> set (map fst weeks) then weeks @ [(wn, [])] else weeks)"
  define weeks2 where "weeks2 = weeks_append weeks1 wn d"
  have step: "reconstruct_weeks (row # rows) weeks = reconstruct_weeks rows weeks2"
    by (simp add: Let_def d weeks2_def weeks1_def wn_def)
  have keys1: "set (map fst weeks1) = insert wn (set (map fst weeks))"
    by (auto simp: weeks1_def)
  have dist1: "distinct (map fst weeks1)"
    using Cons.prems(2) by (auto simp: weeks1_def)
  have get1: "weeks_get weeks1 k = weeks_get weeks k" for k
    by (simp add: weeks1_def weeks_get_new_key)
  have keys2: "map fst weeks2 = map fst weeks1"
    by (simp add: weeks2_def weeks_append_keys)
  have get2: "weeks_get weeks2 k = (if k = wn then weeks_get weeks k @ [d] else weeks_get weeks k)"
    for k
    using keys1 by (simp add: weeks2_def weeks_get_weeks_append get1)
  have dist2: "distinct (map fst weeks2)"
    by (simp only: keys2 dist1)
  from Cons.prems have rest: "\<forall>r\<in>set rows. DailyPlan_new r \<noteq> None" by simp
  from Cons.IH [OF rest dist2] obtain weeks' where
    r: "reconstruct_weeks rows weeks2 = Some weeks'" "distinct (map fst weeks')"
      "set (map fst weeks') = set (map fst weeks2) \<union> dd_week_number ` set rows"
      "\<forall>k. map Some (weeks_get weeks' k) =
        map Some (weeks_get weeks2 k) @
        map DailyPlan_new (filter (\<lambda>r. dd_week_number r = k) rows)"
    by blast
  have a: "set (map fst weeks') = set (map fst weeks) \<union> dd_week_number ` set (row # rows)"
    unfolding r(3) keys2 keys1 by (auto simp: wn_def)
  have b: "map Some (weeks_get weeks' k) =
        map Some (weeks_get weeks k) @
        map DailyPlan_new (filter (\<lambda>r. dd_week_number r = k) (row # rows))" for k
    using r(4) by (simp add: get2 d wn_def)
  from step r(1,2) a b show ?case by auto
qed

lemma sort_distinct_keys:
  "distinct (ks :: int list) \<Longrightarrow> sort ks = sorted_list_of_set (set ks)"
  by (simp add: sorted_list_of_set_sort_remdups distinct_remdups_id)

lemma load_numbered_weeks_result:
  assumes "\<forall>r\<in>set (daily_data pid db). DailyPlan_new r \<noteq> None"
  shows "\<exists>nw. load_numbered_weeks pid db = Some nw \<and>
     map fst nw = sorted_list_of_set (dd_week_number ` set (daily_data pid db)) \<and>
     (\<forall>i<length nw. map Some (snd (nw ! i)) =
        map DailyPlan_new (filter (\<lambda>r. dd_week_number r = fst (nw ! i)) (daily_data pid db)))"
proof -
  from reconstruct_weeks_result [OF assms, of "[]"] obtain weeks' where
    r: "reconstruct_weeks (daily_data pid db) [] = Some weeks'" "distinct (map fst weeks')"
      "set (map fst weeks') = dd_week_number ` set (daily_data pid db)"
      "\<forall>k. map Some (weeks_get weeks' k) =
        map DailyPlan_new (filter (\<lambda>r. dd_week_number r = k) (daily_data pid db))"
    by (auto simp: weeks_get_def)
  have 1: "load_numbered_weeks pid db = Some (numbered_weeks weeks')"
    by (simp add: load_numbered_weeks_def r(1))
  have 2: "map fst (numbered_weeks weeks') =
      sorted_list_of_set (dd_week_number ` set (daily_data pid db))"
    by (simp add: numbered_weeks_def comp_def sort_distinct_keys [OF r(2)] flip: r(3))
  have 3: "map Some (snd (numbered_weeks weeks' ! i)) =
        map DailyPlan_new (filter (\<lambda>r. dd_week_number r = fst (numbered_weeks weeks' ! i))
          (daily_data pid db))" if "i < length (numbered_weeks weeks')" for i
    using that r(4) by (simp add: numbered_weeks_def)
  from 1 2 3 show ?thesis by blast
qed

subsection \<open>The rows of the query\<close>

lemma left_join_meal_ex: "\<exists>a b. (a, b) \<in> set (left_join_meal ms dpid t)"
  by (cases "filter (\<lambda>m. dm_daily_plan_id m = dpid \<and> dm_meal_type m = t) ms")
    (simp_all add: left_join_meal_def, blast)

lemma joined_rows_nonempty: "\<exists>r. r \<in> set (joined_rows ms dp)"
proof -
  have "joined_rows ms dp \<noteq> []"
    by (simp add: joined_rows_def left_join_meal_ex flip: set_empty ex_in_conv)
  then show ?thesis
    by (simp flip: set_empty ex_in_conv)
qed

lemma joined_rows_week: "r \<in> set (joined_rows ms dp) \<Longrightarrow> dd_week_number r = dp_week_number dp"
  by (auto simp: joined_rows_def)

lemma week_numbers_unordered:
  "dd_week_number ` set (daily_data_unordered pid db) =
   dp_week_number ` set (filter (\<lambda>dp. dp_running_plan_id dp = pid) (daily_plan db))"
proof (intro equalityI subsetI)
  fix k assume "k \<in> dd_week_number ` set (daily_data_unordered pid db)"
  then show "k \<in> dp_week_number ` set (filter (\<lambda>dp. dp_running_plan_id dp = pid) (daily_plan db))"
    by (auto simp: daily_data_unordered_def dest!: joined_rows_week)
next
  fix k assume "k \<in> dp_week_number ` set (filter (\<lambda>dp. dp_running_plan_id dp = pid) (daily_plan db))"
  then obtain dp where dp: "dp \<in> set (daily_plan db)" "dp_running_plan_id dp = pid"
    "k = dp_week_number dp" by auto
  from joined_rows_nonempty [of "daily_meal db" dp] obtain r where
    r: "r \<in> set (joined_rows (daily_meal db) dp)" by blast
  with dp have "r \<in> set (daily_data_unordered pid db)"
    by (auto simp: daily_data_unordered_def)
  moreover have "dd_week_number r = k" using joined_rows_week [OF r] dp(3) by simp
  ultimately show "k \<in> dd_week_number ` set (daily_data_unordered pid db)" by force
qed

lemma DailyPlan_new_day: "DailyPlan_new r = Some d \<Longrightarrow> day d = dd_day r"
  by (auto simp: DailyPlan_new_def split: option.splits)

lemma map_day_of_rows:
  assumes "map Some ds = map DailyPlan_new rows"
  shows "map day ds = map dd_day rows"
proof (rule nth_equalityI)
  from assms have len: "length ds = length rows" by (metis length_map)
  then show "length (map day ds) = length (map dd_day rows)" by simp
  fix i assume "i < length (map day ds)"
  then have i: "i < length ds" by simp
  with len assms have "Some (ds ! i) = DailyPlan_new (rows ! i)"
    by (metis nth_map)
  then show "map day ds ! i = map dd_day rows ! i"
    using i len DailyPlan_new_day [of "rows ! i" "ds ! i"] by simp
qed

lemma sorted_by_day_within_week:
  assumes "sorted (map (\<lambda>r. (dd_week_number r, dd_day r)) rows)"
  shows "sorted (map dd_day (filter (\<lambda>r. dd_week_number r = k) rows))"
proof -
  have "sorted (map (\<lambda>r. (dd_week_number r, dd_day r)) (filter (\<lambda>r. dd_week_number r = k) rows))"
    using assms by (rule sorted_filter)
  then have "sorted_wrt (\<lambda>x y. (dd_week_number x, dd_day x) \<le> (dd_week_number y, dd_day y))
      (filter (\<lambda>r. dd_week_number r = k) rows)"
    by (simp only: sorted_map)
  then have "sorted_wrt (\<lambda>x y. dd_day x \<le> dd_day y) (filter (\<lambda>r. dd_week_number r = k) rows)"
    by (rule sorted_wrt_mono_rel [rotated]) auto
  then show ?thesis by (simp only: sorted_map)
qed

lemma daily_data_sorted:
  "sorted (map (\<lambda>r. (dd_week_number r, dd_day r)) (daily_data pid db))"
  by (simp add: daily_data_def)

lemma mset_filter_daily_data:
  "mset (map f (filter P (daily_data pid db))) = mset (map f (filter P (daily_data_unordered pid db)))"
  by (simp add: daily_data_def filter_sort)

subsection \<open>The rows of a saved plan\<close>

lemma flat_rows_week_bounds:
  "r \<in> set (flat_rows wk ws) \<Longrightarrow>
   wk \<le> dd_week_number r \<and> dd_week_number r < wk + int (length ws)"
proof (induction ws arbitrary: wk)
  case Nil
  then show ?case by simp
next
  case (Cons w ws)
  from Cons.prems consider "r \<in> row_of wk ` set w" | "r \<in> set (flat_rows (wk + 1) ws)"
    by auto
  then show ?case
  proof cases
    case 1
    then show ?thesis by (auto simp: row_of_def)
  next
    case 2
    from Cons.IH [OF 2] show ?thesis by simp
  qed
qed

lemma flat_rows_convert:
  assumes "\<forall>w\<in>set ws. \<forall>d\<in>set w. has_all_meals d"
  shows "\<forall>r\<in>set (flat_rows wk ws). DailyPlan_new r \<noteq> None"
  using assms
  by (induction ws arbitrary: wk) (auto simp: DailyPlan_new_row_of)

lemma flat_rows_week:
  "i < length ws \<Longrightarrow>
   filter (\<lambda>r. dd_week_number r = wk + int i) (flat_rows wk ws) =
     map (row_of (wk + int i)) (ws ! i)"
proof (induction ws arbitrary: wk i)
  case Nil
  then show ?case by simp
next
  case (Cons w ws)
  show ?case
  proof (cases i)
    case 0
    have "filter (\<lambda>r. dd_week_number r = wk) (flat_rows (wk + 1) ws) = []"
      using flat_rows_week_bounds [of _ "wk + 1" ws] by (fastforce simp: filter_empty_conv)
    moreover have "filter (\<lambda>r. dd_week_number r = wk) (map (row_of wk) w) = map (row_of wk) w"
      by (simp add: filter_map comp_def row_of_def)
    ultimately show ?thesis using 0 by simp
  next
    case (Suc j)
    with Cons.prems have j: "j < length ws" by simp
    have "filter (\<lambda>r. dd_week_number r = wk + int i) (map (row_of wk) w) = []"
      using Suc by (simp add: filter_map comp_def row_of_def)
    moreover have e: "wk + 1 + int j = wk + int i"
      using Suc by simp
    have "filter (\<lambda>r. dd_week_number r = wk + int i) (flat_rows (wk + 1) ws) =
        map (row_of (wk + int i)) (ws ! j)"
      using Cons.IH [OF j, of "wk + 1"] unfolding e .
    ultimately show ?thesis using Suc by simp
  qed
qed

lemma flat_rows_week_numbers:
  assumes "\<forall>w\<in>set ws. w \<noteq> []"
  shows "dd_week_number ` set (flat_rows wk ws) = {wk..wk + int (length ws) - 1}"
proof (intro equalityI subsetI)
  fix k assume "k \<in> dd_week_number ` set (flat_rows wk ws)"
  then show "k \<in> {wk..wk + int (length ws) - 1}"
    using flat_rows_week_bounds [of _ wk ws] by fastforce
next
  fix k assume "k \<in> {wk..wk + int (length ws) - 1}"
  then have "nat (k - wk) < length ws" "k = wk + int (nat (k - wk))"
    by auto
  then obtain i where i: "i < length ws" "k = wk + int i"
    by blast
  with assms have "ws ! i \<noteq> []" by simp
  then obtain d where "d \<in> set (ws ! i)" by (cases "ws ! i") auto
  then have "row_of k d \<in> set (filter (\<lambda>r. dd_week_number r = k) (flat_rows wk ws))"
    using flat_rows_week [OF i(1), of wk] i(2) by simp
  then show "k \<in> dd_week_number ` set (flat_rows wk ws)" by force
qed

lemma sorted_list_of_set_upto: "sorted_list_of_set {i..j::int} = [i..j]"
  using sorted_list_of_set.idem_if_sorted_distinct [of "[i..j]"] by simp


lemma find_fresh_last:
  "\<forall>x\<in>set xs. \<not> P x \<Longrightarrow> P y \<Longrightarrow> find P (xs @ [y]) = Some y"
  by (induction xs) auto


lemma example_plan_valid: "validate_plan_structure example_plan"
  by (simp add: validate_plan_structure_def check_weeks_iff has_all_meals_def example_plan_def
      tuesday_run_def monday_rest_def sunday_long_def)

text \<open>
  \<^term>\<open>db_consistent\<close> holds of the new database and is kept by every save of a plan whose
  days carry their meals and by every delete: it is an invariant of the files that
  \<^verbatim>\<open>database.py\<close> writes.
\<close>

lemma empty_database_consistent: "db_consistent empty_database"
  by (simp add: db_consistent_def day_refs_ok_def meal_refs_ok_def empty_database_def)

lemma save_plan_to_db_consistent:
  assumes cons: "db_consistent db" and typed: "plan_well_typed p"
  shows "\<exists>pid db'. save_plan_to_db p now (Some db) = (Some pid, Some db') \<and> db_consistent db'"
proof -
  from typed have meals: "\<forall>w\<in>set (plan p). \<forall>d\<in>set w. has_all_meals d"
    by (auto simp: plan_well_typed_def list_all_iff)
  define pid where "pid = next_rowid (seq_running_plan db) (map rp_id (running_plan db))"
  define row where "row = \<lparr>rp_id = pid, rp_motivation = motivation p, rp_feedback = feedback p,
     rp_supplement_suggestion = supplement_suggestion p, rp_created_at = now\<rparr>"
  define db1 where "db1 = db\<lparr>running_plan := running_plan db @ [row], seq_running_plan := pid\<rparr>"
  have ins: "insert_running_plan (motivation p) (feedback p) (supplement_suggestion p) now db =
      (pid, db1)"
    by (simp add: insert_running_plan_def Let_def pid_def db1_def row_def)
  have mok1: "meal_refs_ok db1"
    using cons by (simp add: db_consistent_def meal_refs_ok_def db1_def)
  from save_weeks_result [OF mok1 meals, of pid 1] obtain db2 where
    sw: "save_weeks pid 1 (plan p) db1 = Some db2"
    and mok2: "meal_refs_ok db2"
    and seq2: "seq_running_plan db2 = seq_running_plan db1"
    and refs: "set (map dp_running_plan_id (daily_plan db2)) \<subseteq>
       insert pid (set (map dp_running_plan_id (daily_plan db1)))"
    by blast
  have seq_lt: "seq_running_plan db < pid"
    unfolding pid_def by (rule next_rowid_gt_seq)
  have "\<forall>x\<in>set (map dp_running_plan_id (daily_plan db1)). x \<le> pid"
    using cons seq_lt by (auto simp: db_consistent_def day_refs_ok_def list_all_iff db1_def)
  with refs have "\<forall>x\<in>set (map dp_running_plan_id (daily_plan db2)). x \<le> pid"
    by auto
  then have "day_refs_ok db2"
    by (simp add: day_refs_ok_def list_all_iff seq2 db1_def)
  with mok2 have "db_consistent db2" by (simp add: db_consistent_def)
  moreover have "save_plan_to_db p now (Some db) = (Some pid, Some db2)"
    by (simp add: save_plan_to_db_def ins sw)
  ultimately show ?thesis by blast
qed

lemma delete_plan_consistent:
  assumes "db_consistent db" and "delete_plan plan_id (Some db) = (ok, Some db')"
  shows "db_consistent db'"
  using assms
  by (auto simp: delete_plan_def db_consistent_def day_refs_ok_def meal_refs_ok_def list_all_iff
      delete_running_plan_def delete_daily_plans_def delete_daily_meals_def split: if_splits)

lemma fetch_plan_row_delete: "fetch_plan_row plan_id (delete_running_plan plan_id db) = None"
  by (simp add: fetch_plan_row_def delete_running_plan_def find_None_iff)

lemma daily_data_no_rows:
  "filter (\<lambda>dp. dp_running_plan_id dp = plan_id) (daily_plan db) = [] \<Longrightarrow> daily_data plan_id db = []"
  by (simp add: daily_data_def daily_data_unordered_def)

lemma next_rowid_Nil: "next_rowid seq [] = seq + 1"
  by (simp add: next_rowid_def)

lemma next_rowid_Cons: "next_rowid seq (i # ids) = next_rowid (max i seq) ids"
  by (simp add: next_rowid_def)

text \<open>\<^term>\<open>example_db\<close> is what saving \<^term>\<open>example_plan\<close> leaves in the new database.\<close>

lemma save_example:
  "save_plan_to_db example_plan ''2026-01-01 10:00:00'' (Some empty_database) =
     (Some 1, Some example_db)"
  by (simp add: save_plan_to_db_def insert_running_plan_def insert_daily_plan_def
      insert_daily_meal_def next_rowid_Nil next_rowid_Cons empty_database_def example_plan_def
      example_db_def tuesday_run_def monday_rest_def sunday_long_def oatmeal_def salad_def
      pasta_def meal_types_def getattr_meal_def)

lemma load_example:
  "load_plan_from_db 1 (Some example_db) =
     Inr (example_plan\<lparr>plan := [[monday_rest, tuesday_run], [sunday_long]]\<rparr>)"
  by (simp add: load_plan_from_db_def sqlite_int64_def fetch_plan_row_def
      load_numbered_weeks_def daily_data_def
      daily_data_unordered_def joined_rows_def left_join_meal_def example_db_def
      DailyPlan_new_def DailyMeal_new_def numbered_weeks_def weeks_get_def Let_def
      example_plan_def monday_rest_def tuesday_run_def sunday_long_def oatmeal_def salad_def
      pasta_def)

section \<open>Claims about the plan store\<close>

text \<open>
  C1. Saving a valid plan into a consistent database whose \<^verbatim>\<open>running_plan\<close> table can still
  give out a 64-bit row id returns an id, and loading that id gives a plan with the same \<^verbatim>\<open>motivation\<close>, \<^verbatim>\<open>feedback\<close> and
  \<^verbatim>\<open>supplement_suggestion\<close>, with as many weeks, whose week of each number holds the same
  day records as the original week, each as often as there (so also the same set), in
  whatever order.
\<close>

theorem save_then_load:
  assumes cons: "db_consistent db" and valid: "validate_plan_structure p"
    and room: "sqlite_int64 (next_rowid (seq_running_plan db) (map rp_id (running_plan db)))"
  shows "\<exists>pid db' q.
     save_plan_to_db p now (Some db) = (Some pid, Some db') \<and>
     load_plan_from_db pid (Some db') = Inr q \<and>
     motivation q = motivation p \<and> feedback q = feedback p \<and>
     supplement_suggestion q = supplement_suggestion p \<and>
     length (plan q) = length (plan p) \<and>
     (\<forall>i<length (plan p). mset (plan q ! i) = mset (plan p ! i))"
proof -
  from valid have meals: "\<forall>w\<in>set (plan p). \<forall>d\<in>set w. has_all_meals d"
    and nonempty: "\<forall>w\<in>set (plan p). w \<noteq> []"
    using validate_plan_structure_well_typed [OF valid] validate_plan_structure_nonempty [OF valid]
    by (auto simp: plan_well_typed_def list_all_iff)
  define pid where "pid = next_rowid (seq_running_plan db) (map rp_id (running_plan db))"
  define row where "row = \<lparr>rp_id = pid, rp_motivation = motivation p, rp_feedback = feedback p,
     rp_supplement_suggestion = supplement_suggestion p, rp_created_at = now\<rparr>"
  define db1 where "db1 = db\<lparr>running_plan := running_plan db @ [row], seq_running_plan := pid\<rparr>"
  have ins: "insert_running_plan (motivation p) (feedback p) (supplement_suggestion p) now db =
      (pid, db1)"
    by (simp add: insert_running_plan_def Let_def pid_def db1_def row_def)
  have mok1: "meal_refs_ok db1"
    using cons by (simp add: db_consistent_def meal_refs_ok_def db1_def)
  from save_weeks_result [OF mok1 meals, of pid 1] obtain db2 where
    sw: "save_weeks pid 1 (plan p) db1 = Some db2"
    and rp2: "running_plan db2 = running_plan db1"
    and dd2: "daily_data_unordered pid db2 = daily_data_unordered pid db1 @ flat_rows 1 (plan p)"
    by blast
  have save: "save_plan_to_db p now (Some db) = (Some pid, Some db2)"
    by (simp add: save_plan_to_db_def ins sw)
  have seq_lt: "seq_running_plan db < pid"
    unfolding pid_def by (rule next_rowid_gt_seq)
  have "filter (\<lambda>dp. dp_running_plan_id dp = pid) (daily_plan db1) = []"
    using cons seq_lt
    by (auto simp: db_consistent_def day_refs_ok_def list_all_iff filter_empty_conv db1_def)
  then have "daily_data_unordered pid db1 = []"
    by (simp add: daily_data_unordered_def)
  with dd2 have unordered: "daily_data_unordered pid db2 = flat_rows 1 (plan p)"
    by simp
  have old_ids: "\<forall>r\<in>set (running_plan db). \<not> rp_id r = pid"
    using next_rowid_gt_ids [of _ "map rp_id (running_plan db)" "seq_running_plan db"]
    unfolding pid_def by force
  have fetch: "fetch_plan_row pid db2 = Some row"
    unfolding fetch_plan_row_def rp2
    using find_fresh_last [OF old_ids, of row] by (simp add: db1_def row_def)
  have conv: "\<forall>r\<in>set (daily_data pid db2). DailyPlan_new r \<noteq> None"
    using flat_rows_convert [OF meals, of 1] by (simp add: daily_data_def unordered)
  from load_numbered_weeks_result [OF conv] obtain nw where
    nw: "load_numbered_weeks pid db2 = Some nw"
    and keys: "map fst nw = sorted_list_of_set (dd_week_number ` set (daily_data pid db2))"
    and days: "\<forall>i<length nw. map Some (snd (nw ! i)) =
        map DailyPlan_new (filter (\<lambda>r. dd_week_number r = fst (nw ! i)) (daily_data pid db2))"
    by blast
  define q where "q = \<lparr>motivation = motivation p, feedback = feedback p,
     supplement_suggestion = supplement_suggestion p, plan = map snd nw\<rparr>"
  have load: "load_plan_from_db pid (Some db2) = Inr q"
  proof -
    from room have "sqlite_int64 pid" by (simp only: pid_def)
    then show ?thesis
      by (simp add: load_plan_from_db_def fetch nw q_def row_def)
  qed
  have "dd_week_number ` set (daily_data pid db2) = {1..int (length (plan p))}"
    using flat_rows_week_numbers [OF nonempty, of 1] by (simp add: daily_data_def unordered)
  then have keys': "map fst nw = [1..int (length (plan p))]"
    by (simp only: keys sorted_list_of_set_upto)
  have len_nw: "length nw = length (plan p)"
    using arg_cong [OF keys', of length] by simp
  have len: "length (plan q) = length (plan p)"
    by (simp add: q_def len_nw)
  have week: "mset (plan q ! i) = mset (plan p ! i)" if i: "i < length (plan p)" for i
  proof -
    from i have i': "i < length nw" by (simp add: len_nw)
    have "fst (nw ! i) = map fst nw ! i" using i' by simp
    also have "\<dots> = 1 + int i" unfolding keys' using i by simp
    finally have k: "fst (nw ! i) = 1 + int i" .
    have "mset (map Some (plan q ! i)) =
        mset (map DailyPlan_new (filter (\<lambda>r. dd_week_number r = 1 + int i) (daily_data pid db2)))"
      using days i' by (simp add: q_def k)
    also have "\<dots> = mset (map DailyPlan_new
        (filter (\<lambda>r. dd_week_number r = 1 + int i) (flat_rows 1 (plan p))))"
      by (simp only: mset_filter_daily_data unordered)
    also have "\<dots> = mset (map DailyPlan_new (map (row_of (1 + int i)) (plan p ! i)))"
      by (simp only: flat_rows_week [OF i])
    also have "map DailyPlan_new (map (row_of (1 + int i)) (plan p ! i)) = map Some (plan p ! i)"
    proof -
      have "\<forall>d\<in>set (plan p ! i). has_all_meals d"
        using meals i nth_mem by blast
      then show ?thesis by (simp add: DailyPlan_new_row_of)
    qed
    finally have "image_mset Some (mset (plan q ! i)) = image_mset Some (mset (plan p ! i))"
      by simp
    then have "image_mset the (image_mset Some (mset (plan q ! i))) =
        image_mset the (image_mset Some (mset (plan p ! i)))"
      by (rule arg_cong)
    then show ?thesis
      by (simp add: image_mset.compositionality comp_def)
  qed
  have fields: "motivation q = motivation p" "feedback q = feedback p"
    "supplement_suggestion q = supplement_suggestion p"
    by (simp_all add: q_def)
  from save load fields len week show ?thesis by blast
qed

theorem save_then_load_witness:
  "db_consistent empty_database \<and> validate_plan_structure example_plan \<and>
   sqlite_int64 (next_rowid (seq_running_plan empty_database)
     (map rp_id (running_plan empty_database))) \<and>
   (\<exists>pid db' q.
      save_plan_to_db example_plan ''2026-01-01 10:00:00'' (Some empty_database) =
        (Some pid, Some db') \<and>
      load_plan_from_db pid (Some db') = Inr q \<and>
      motivation q = ''You can do it'' \<and> feedback q = ''Good pace'' \<and>
      supplement_suggestion q = ''Magnesium'' \<and> length (plan q) = 2 \<and>
      mset (plan q ! 0) = {#tuesday_run, monday_rest#} \<and>
      mset (plan q ! 1) = {#sunday_long#})"
proof -
  have room: "sqlite_int64 (next_rowid (seq_running_plan empty_database)
     (map rp_id (running_plan empty_database)))"
    by (simp add: sqlite_int64_def next_rowid_def empty_database_def)
  from save_then_load [OF empty_database_consistent example_plan_valid room,
      of "''2026-01-01 10:00:00''"]
  obtain pid db' q where
    r: "save_plan_to_db example_plan ''2026-01-01 10:00:00'' (Some empty_database) =
        (Some pid, Some db')"
      "load_plan_from_db pid (Some db') = Inr q"
      "motivation q = motivation example_plan" "feedback q = feedback example_plan"
      "supplement_suggestion q = supplement_suggestion example_plan"
      "length (plan q) = length (plan example_plan)"
      "\<forall>i<length (plan example_plan). mset (plan q ! i) = mset (plan example_plan ! i)"
    by blast
  have f: "motivation q = ''You can do it''" "feedback q = ''Good pace''"
    "supplement_suggestion q = ''Magnesium''" "length (plan q) = 2"
    using r(3-6) by (simp_all add: example_plan_def)
  have "mset (plan q ! 0) = mset (plan example_plan ! 0)"
    "mset (plan q ! 1) = mset (plan example_plan ! 1)"
    using r(7) by (simp_all add: example_plan_def)
  then have w: "mset (plan q ! 0) = {#tuesday_run, monday_rest#}"
    "mset (plan q ! 1) = {#sunday_long#}"
    by (simp_all add: example_plan_def)
  from empty_database_consistent example_plan_valid room r(1,2) f w show ?thesis by blast
qed

text \<open>
  C2. When \<^verbatim>\<open>load_plan_from_db\<close> returns a plan, its weeks stand for the distinct stored
  week numbers of the plan's \<^verbatim>\<open>daily_plan\<close> rows in ascending order; the week for a number
  holds the days built from the joined rows with that week number, and its days are sorted
  by their \<^verbatim>\<open>day\<close> label in the lexicographic order, whatever the insertion order was
  (the example stores Tuesday before Monday and loads Monday first).
\<close>

theorem load_groups_by_week_sorts_by_day:
  assumes "load_plan_from_db plan_id (Some db) = Inr q"
  shows "\<exists>ks. sorted ks \<and> distinct ks \<and>
      set ks = dp_week_number `
        set (filter (\<lambda>dp. dp_running_plan_id dp = plan_id) (daily_plan db)) \<and>
      length (plan q) = length ks \<and>
      (\<forall>i<length ks.
         sorted (map day (plan q ! i)) \<and>
         mset (map Some (plan q ! i)) =
           mset (map DailyPlan_new
             (filter (\<lambda>r. dd_week_number r = ks ! i) (daily_data_unordered plan_id db))))"
proof -
  from assms obtain nw where
    nw: "load_numbered_weeks plan_id db = Some nw" and q: "plan q = map snd nw"
    by (auto simp: load_plan_from_db_def split: option.splits if_splits)
  from nw obtain weeks' where "reconstruct_weeks (daily_data plan_id db) [] = Some weeks'"
    by (auto simp: load_numbered_weeks_def)
  then have conv: "\<forall>r\<in>set (daily_data plan_id db). DailyPlan_new r \<noteq> None"
    by (rule reconstruct_weeks_Some_rows)
  from load_numbered_weeks_result [OF conv] nw have
    keys: "map fst nw = sorted_list_of_set (dd_week_number ` set (daily_data plan_id db))"
    and days: "\<forall>i<length nw. map Some (snd (nw ! i)) =
        map DailyPlan_new (filter (\<lambda>r. dd_week_number r = fst (nw ! i)) (daily_data plan_id db))"
    by auto
  define ks where "ks = map fst nw"
  have fin: "finite (dd_week_number ` set (daily_data plan_id db))" by simp
  have 1: "sorted ks" "distinct ks"
    unfolding ks_def keys by simp_all
  have "set ks = dd_week_number ` set (daily_data plan_id db)"
    unfolding ks_def keys using fin by simp
  also have "\<dots> = dd_week_number ` set (daily_data_unordered plan_id db)"
    by (simp add: daily_data_def)
  finally have 2: "set ks = dp_week_number `
        set (filter (\<lambda>dp. dp_running_plan_id dp = plan_id) (daily_plan db))"
    by (simp only: week_numbers_unordered)
  have 3: "length (plan q) = length ks"
    by (simp add: q ks_def)
  have 4: "sorted (map day (plan q ! i)) \<and>
         mset (map Some (plan q ! i)) =
           mset (map DailyPlan_new
             (filter (\<lambda>r. dd_week_number r = ks ! i) (daily_data_unordered plan_id db)))"
    if "i < length ks" for i
  proof -
    from that have i: "i < length nw" by (simp add: ks_def)
    then have e: "map Some (plan q ! i) =
        map DailyPlan_new (filter (\<lambda>r. dd_week_number r = ks ! i) (daily_data plan_id db))"
      using days by (simp add: q ks_def)
    have "map day (plan q ! i) =
        map dd_day (filter (\<lambda>r. dd_week_number r = ks ! i) (daily_data plan_id db))"
      using e by (rule map_day_of_rows)
    then have "sorted (map day (plan q ! i))"
      using sorted_by_day_within_week [OF daily_data_sorted, of "ks ! i" plan_id db] by simp
    moreover have "mset (map Some (plan q ! i)) =
           mset (map DailyPlan_new
             (filter (\<lambda>r. dd_week_number r = ks ! i) (daily_data_unordered plan_id db)))"
      unfolding e by (rule mset_filter_daily_data)
    ultimately show ?thesis by (rule conjI)
  qed
  from 1 2 3 4 show ?thesis by blast
qed

theorem load_groups_by_week_sorts_by_day_witness:
  "load_plan_from_db 1 (Some example_db) =
     Inr (example_plan\<lparr>plan := [[monday_rest, tuesday_run], [sunday_long]]\<rparr>) \<and>
   (\<exists>ks. sorted ks \<and> distinct ks \<and> set ks = {1, 2::int} \<and>
      (\<forall>i<length ks. sorted (map day ([[monday_rest, tuesday_run], [sunday_long]] ! i))))"
proof -
  from load_groups_by_week_sorts_by_day [OF load_example] obtain ks where
    ks: "sorted ks" "distinct ks"
      "set ks = dp_week_number `
        set (filter (\<lambda>dp. dp_running_plan_id dp = 1) (daily_plan example_db))"
      "length [[monday_rest, tuesday_run], [sunday_long]] = length ks"
      "\<forall>i<length ks. sorted (map day ([[monday_rest, tuesday_run], [sunday_long]] ! i))"
    by auto
  have "set ks = {1, 2::int}"
    unfolding ks(3) by (simp add: example_db_def)
  with ks(1,2,5) load_example show ?thesis by blast
qed

text \<open>
  C5. \<^verbatim>\<open>delete_plan\<close> returns success and leaves the tables without the
  \<^verbatim>\<open>daily_meal\<close> rows that referenced a \<^verbatim>\<open>daily_plan\<close> row of the plan (found while those
  rows were still there: meals go first), without the plan's \<^verbatim>\<open>daily_plan\<close> rows and
  without its \<^verbatim>\<open>running_plan\<close> row, every other row untouched; loading the id afterwards
  reports not-found. This holds for every id that sqlite3 can bind (a 64-bit integer), so
  for every id that a stored plan can have.
\<close>

theorem delete_plan_removes:
  assumes id: "sqlite_int64 plan_id"
  shows "\<exists>db'. delete_plan plan_id (Some db) = (True, Some db') \<and>
     daily_meal db' =
       filter (\<lambda>m. \<not> (\<exists>dp\<in>set (daily_plan db).
                   dp_running_plan_id dp = plan_id \<and> dp_id dp = dm_daily_plan_id m))
         (daily_meal db) \<and>
     daily_plan db' = filter (\<lambda>dp. dp_running_plan_id dp \<noteq> plan_id) (daily_plan db) \<and>
     running_plan db' = filter (\<lambda>r. rp_id r \<noteq> plan_id) (running_plan db) \<and>
     load_plan_from_db plan_id (Some db') = Inl NotFound"
proof -
  let ?db' = "delete_running_plan plan_id (delete_daily_plans plan_id (delete_daily_meals plan_id db))"
  have 1: "delete_plan plan_id (Some db) = (True, Some ?db')"
    using id by (simp add: delete_plan_def)
  have 2: "daily_meal ?db' =
       filter (\<lambda>m. \<not> (\<exists>dp\<in>set (daily_plan db).
                   dp_running_plan_id dp = plan_id \<and> dp_id dp = dm_daily_plan_id m))
         (daily_meal db)"
    unfolding delete_running_plan_def delete_daily_plans_def delete_daily_meals_def
    by (simp, rule filter_cong, simp, force)
  have 3: "daily_plan ?db' = filter (\<lambda>dp. dp_running_plan_id dp \<noteq> plan_id) (daily_plan db)"
    by (simp add: delete_running_plan_def delete_daily_plans_def delete_daily_meals_def)
  have 4: "running_plan ?db' = filter (\<lambda>r. rp_id r \<noteq> plan_id) (running_plan db)"
    by (simp add: delete_running_plan_def delete_daily_plans_def delete_daily_meals_def)
  have 5: "load_plan_from_db plan_id (Some ?db') = Inl NotFound"
    using id by (simp add: load_plan_from_db_def fetch_plan_row_delete)
  from 1 2 3 4 5 show ?thesis by blast
qed

theorem delete_plan_removes_witness:
  "sqlite_int64 1 \<and> fetch_plan_row 1 example_db \<noteq> None \<and>
   (\<exists>db'. delete_plan 1 (Some example_db) = (True, Some db') \<and>
      daily_meal db' = [] \<and> daily_plan db' = [] \<and> running_plan db' = [] \<and>
      load_plan_from_db 1 (Some db') = Inl NotFound)"
proof -
  have e: "fetch_plan_row 1 example_db \<noteq> None"
    by (simp add: example_db_def fetch_plan_row_def)
  have i: "sqlite_int64 1"
    by (simp add: sqlite_int64_def)
  from delete_plan_removes [OF i, of example_db] obtain db' where
    d: "delete_plan 1 (Some example_db) = (True, Some db')"
    and m: "daily_meal db' =
       filter (\<lambda>m. \<not> (\<exists>dp\<in>set (daily_plan example_db).
                   dp_running_plan_id dp = 1 \<and> dp_id dp = dm_daily_plan_id m))
         (daily_meal example_db)"
    and p: "daily_plan db' = filter (\<lambda>dp. dp_running_plan_id dp \<noteq> 1) (daily_plan example_db)"
    and r: "running_plan db' = filter (\<lambda>r. rp_id r \<noteq> 1) (running_plan example_db)"
    and l: "load_plan_from_db 1 (Some db') = Inl NotFound"
    by blast
  have "daily_meal db' = []" unfolding m by (simp add: example_db_def)
  moreover have "daily_plan db' = []" unfolding p by (simp add: example_db_def)
  moreover have "running_plan db' = []" unfolding r by (simp add: example_db_def)
  ultimately show ?thesis using i e d l by blast
qed

text \<open>
  C8. \<^verbatim>\<open>list_all_plans\<close> returns one summary for each stored plan row, carrying its id and
  timestamp and its motivation unchanged when at most 50 characters long and cut to the
  first 50 characters followed by \<^verbatim>\<open>...\<close> otherwise; the summaries are in descending order
  of \<^verbatim>\<open>created_at\<close>.
\<close>

theorem list_all_plans_summaries:
  "mset (list_all_plans (Some db)) =
     mset (map (\<lambda>r. \<lparr>ps_id = rp_id r,
                     ps_motivation = (if length (rp_motivation r) \<le> 50 then rp_motivation r
                                      else take 50 (rp_motivation r) @ ''...''),
                     ps_created_at = rp_created_at r\<rparr>) (running_plan db)) \<and>
   sorted_wrt (\<lambda>a b. ps_created_at a \<ge> ps_created_at b) (list_all_plans (Some db))"
proof -
  have a: "summary_motivation m = (if length m \<le> 50 then m else take 50 m @ ''...'')" for m
    by (simp add: summary_motivation_def)
  have "sorted_wrt (\<lambda>x y. rp_created_at x \<le> rp_created_at y) (sort_key rp_created_at (running_plan db))"
    using sorted_sort_key [of rp_created_at "running_plan db"] by (simp only: sorted_map)
  then have s: "sorted_wrt (\<lambda>a b. ps_created_at a \<ge> ps_created_at b) (list_all_plans (Some db))"
    by (simp add: list_all_plans_def order_by_created_at_desc_def sorted_wrt_map sorted_wrt_rev)
  have m: "mset (list_all_plans (Some db)) =
     mset (map (\<lambda>r. \<lparr>ps_id = rp_id r,
                     ps_motivation = (if length (rp_motivation r) \<le> 50 then rp_motivation r
                                      else take 50 (rp_motivation r) @ ''...''),
                     ps_created_at = rp_created_at r\<rparr>) (running_plan db))"
    by (simp add: list_all_plans_def order_by_created_at_desc_def a)
  from m s show ?thesis by (rule conjI)
qed

text \<open>
  C9. A \<^verbatim>\<open>running_plan\<close> row without any \<^verbatim>\<open>daily_plan\<close> row loads as a plan with the
  row's three texts and an empty week sequence, not as not-found, and that plan fails
  \<^verbatim>\<open>validate_plan_structure\<close>. (The id of a stored row is a 64-bit integer.)
\<close>

theorem load_plan_without_days:
  assumes "sqlite_int64 plan_id" and "fetch_plan_row plan_id db = Some r"
    and "filter (\<lambda>dp. dp_running_plan_id dp = plan_id) (daily_plan db) = []"
  shows "\<exists>q. load_plan_from_db plan_id (Some db) = Inr q \<and> plan q = [] \<and>
           motivation q = rp_motivation r \<and> feedback q = rp_feedback r \<and>
           supplement_suggestion q = rp_supplement_suggestion r \<and>
           \<not> validate_plan_structure q"
  using assms
  by (simp add: load_plan_from_db_def load_numbered_weeks_def daily_data_no_rows
      numbered_weeks_def validate_plan_structure_def)

theorem load_plan_without_days_witness:
  "load_plan_from_db 1 (Some plan_row_only_db) =
     Inr \<lparr>motivation = ''You can do it'', feedback = ''Good pace'',
          supplement_suggestion = ''Magnesium'', plan = []\<rparr> \<and>
   \<not> validate_plan_structure \<lparr>motivation = ''You can do it'', feedback = ''Good pace'',
          supplement_suggestion = ''Magnesium'', plan = []\<rparr>"
proof -
  let ?r = "\<lparr>rp_id = 1, rp_motivation = ''You can do it'', rp_feedback = ''Good pace'',
        rp_supplement_suggestion = ''Magnesium'', rp_created_at = ''2026-01-01 10:00:00''\<rparr>"
  have f: "fetch_plan_row 1 plan_row_only_db = Some ?r"
    by (simp add: plan_row_only_db_def example_db_def fetch_plan_row_def)
  have n: "filter (\<lambda>dp. dp_running_plan_id dp = 1) (daily_plan plan_row_only_db) = []"
    by (simp add: plan_row_only_db_def)
  have i: "sqlite_int64 1"
    by (simp add: sqlite_int64_def)
  from load_plan_without_days [OF i f n] obtain q where
    q: "load_plan_from_db 1 (Some plan_row_only_db) = Inr q" "plan q = []"
      "motivation q = ''You can do it''" "feedback q = ''Good pace''"
      "supplement_suggestion q = ''Magnesium''" "\<not> validate_plan_structure q"
    by auto
  have "q = \<lparr>motivation = ''You can do it'', feedback = ''Good pace'',
          supplement_suggestion = ''Magnesium'', plan = []\<rparr>"
    using q(2-5) by (cases q) simp
  with q(1,6) show ?thesis by simp
qed

text \<open>
  C10. \<^verbatim>\<open>delete_plan\<close> makes no existence check: on an accessible database it returns
  \<^verbatim>\<open>True\<close> for every id that sqlite3 can bind (a signed 64-bit integer), whether or not a
  plan of that id is stored, and for an id that no row refers to it leaves the tables as
  they were and still answers \<^verbatim>\<open>True\<close>. But not for every id: a Python integer outside the
  64-bit range makes \<^verbatim>\<open>cur.execute\<close> raise, and \<^verbatim>\<open>delete_plan\<close> returns \<^verbatim>\<open>False\<close> with
  the database accessible and untouched, as it also does when sqlite3 cannot work on the
  file.
\<close>

theorem delete_plan_no_existence_check:
  "(sqlite_int64 plan_id \<longrightarrow>
      fst (delete_plan plan_id (Some db)) = True \<and>
      (fetch_plan_row plan_id db = None \<and>
       filter (\<lambda>dp. dp_running_plan_id dp = plan_id) (daily_plan db) = [] \<longrightarrow>
         delete_plan plan_id (Some db) = (True, Some db))) \<and>
   (\<not> sqlite_int64 plan_id \<longrightarrow> delete_plan plan_id (Some db) = (False, Some db)) \<and>
   fst (delete_plan plan_id None) = False"
proof -
  have "delete_plan plan_id (Some db) = (True, Some db)"
    if i: "sqlite_int64 plan_id"
      and f: "fetch_plan_row plan_id db = None"
      and d: "filter (\<lambda>dp. dp_running_plan_id dp = plan_id) (daily_plan db) = []"
  proof -
    from f have r: "filter (\<lambda>r. rp_id r \<noteq> plan_id) (running_plan db) = running_plan db"
      by (simp add: fetch_plan_row_def find_None_iff filter_id_conv)
    from d have p: "filter (\<lambda>dp. dp_running_plan_id dp \<noteq> plan_id) (daily_plan db) = daily_plan db"
      by (simp add: filter_empty_conv filter_id_conv)
    show ?thesis
      using i
      by (simp add: delete_plan_def delete_running_plan_def delete_daily_plans_def
          delete_daily_meals_def d r p)
  qed
  then show ?thesis by (simp add: delete_plan_def)
qed

theorem delete_plan_no_existence_check_witness:
  "sqlite_int64 7 \<and> fetch_plan_row 7 example_db = None \<and>
   delete_plan 7 (Some example_db) = (True, Some example_db) \<and>
   sqlite_int64 1 \<and> fetch_plan_row 1 example_db \<noteq> None \<and>
   fst (delete_plan 1 (Some example_db)) = True \<and>
   \<not> sqlite_int64 (- 9223372036854775809) \<and>
   delete_plan (- 9223372036854775809) (Some example_db) = (False, Some example_db)"
proof -
  have i: "sqlite_int64 7" "sqlite_int64 1" "\<not> sqlite_int64 (- 9223372036854775809)"
    by (simp_all add: sqlite_int64_def)
  have f: "fetch_plan_row 7 example_db = None"
    and d: "filter (\<lambda>dp. dp_running_plan_id dp = 7) (daily_plan example_db) = []"
    and e: "fetch_plan_row 1 example_db \<noteq> None"
    by (simp_all add: fetch_plan_row_def example_db_def)
  from delete_plan_no_existence_check [of 7 example_db] i(1) f d
  have 1: "delete_plan 7 (Some example_db) = (True, Some example_db)" by blast
  from delete_plan_no_existence_check [of 1 example_db] i(2)
  have 2: "fst (delete_plan 1 (Some example_db)) = True" by blast
  from delete_plan_no_existence_check [of "- 9223372036854775809" example_db] i(3)
  have 3: "delete_plan (- 9223372036854775809) (Some example_db) = (False, Some example_db)"
    by blast
  from i f 1 e 2 3 show ?thesis by blast
qed

text \<open>
  The claim as it was stated, that every id gives \<^verbatim>\<open>True\<close> on an accessible database,
  fails at the id 9223372036854775808, one past the largest SQLite integer, on the new
  database.
\<close>

theorem delete_plan_every_id_counterexample:
  "fst (delete_plan 9223372036854775808 (Some empty_database)) = False"
  by (simp add: delete_plan_def sqlite_int64_def)

section \<open>Properties of the HTML rendering\<close>

lemma sublist_in_suffix: "sublist xs ys \<Longrightarrow> sublist xs (zs @ ys)"
proof -
  assume "sublist xs ys"
  then obtain ps ss where "ys = ps @ xs @ ss" by (auto simp: sublist_def)
  then have "zs @ ys = (zs @ ps) @ xs @ ss" by simp
  then show ?thesis unfolding sublist_def by blast
qed

lemma sublist_in_prefix: "sublist xs ys \<Longrightarrow> sublist xs (ys @ zs)"
proof -
  assume "sublist xs ys"
  then obtain ps ss where "ys = ps @ xs @ ss" by (auto simp: sublist_def)
  then have "ys @ zs = ps @ xs @ (ss @ zs)" by simp
  then show ?thesis unfolding sublist_def by blast
qed

lemma html_day_Some:
  "html_day d = Some block \<Longrightarrow>
   \<exists>b l dn. breakfast d = Some b \<and> lunch d = Some l \<and> dinner d = Some dn \<and>
     block = html_day_block d b l dn"
  by (auto simp: html_day_def split: option.splits)

lemma html_day_total: "has_all_meals d \<Longrightarrow> \<exists>block. html_day d = Some block"
  by (auto simp: html_day_def has_all_meals_def)

lemma html_days_extends: "html_days ds html = Some out \<Longrightarrow> \<exists>rest. out = html @ rest"
proof (induction ds arbitrary: html)
  case Nil
  then show ?case by simp
next
  case (Cons d ds)
  from Cons.prems obtain block where
    b: "html_day d = Some block" and r: "html_days ds (html @ block) = Some out"
    by (auto split: option.splits)
  from Cons.IH [OF r] obtain rest where "out = (html @ block) @ rest" by blast
  then have "out = html @ (block @ rest)" by simp
  then show ?case by blast
qed

lemma html_days_blocks:
  "html_days ds html = Some out \<Longrightarrow> d \<in> set ds \<Longrightarrow>
   \<exists>block. html_day d = Some block \<and> sublist block out"
proof (induction ds arbitrary: html)
  case Nil
  then show ?case by simp
next
  case (Cons d0 ds)
  from Cons.prems(1) obtain b0 where
    b: "html_day d0 = Some b0" and r: "html_days ds (html @ b0) = Some out"
    by (auto split: option.splits)
  show ?case
  proof (cases "d = d0")
    case True
    from html_days_extends [OF r] obtain rest where "out = html @ b0 @ rest" by auto
    then have "sublist b0 out" by simp
    with b True show ?thesis by blast
  next
    case False
    with Cons.prems(2) have "d \<in> set ds" by simp
    from Cons.IH [OF r this] show ?thesis .
  qed
qed

lemma html_days_total:
  "\<forall>d\<in>set ds. has_all_meals d \<Longrightarrow> \<exists>out. html_days ds html = Some out"
proof (induction ds arbitrary: html)
  case Nil
  then show ?case by simp
next
  case (Cons d ds)
  from Cons.prems html_day_total [of d] obtain block where b: "html_day d = Some block"
    by auto
  from Cons.prems have "\<forall>d\<in>set ds. has_all_meals d" by simp
  from Cons.IH [OF this, of "html @ block"] b show ?case by simp
qed

lemma html_weeks_extends:
  "html_weeks week_idx ws html = Some out \<Longrightarrow> \<exists>rest. out = html @ rest"
proof (induction ws arbitrary: html week_idx)
  case Nil
  then show ?case by simp
next
  case (Cons w ws)
  from Cons.prems obtain h1 where
    d: "html_days w (html @ html_week_open week_idx) = Some h1"
    and r: "html_weeks (week_idx + 1) ws (h1 @ html_week_close) = Some out"
    by (auto split: option.splits)
  from html_days_extends [OF d] obtain r1 where h1: "h1 = (html @ html_week_open week_idx) @ r1"
    by blast
  from Cons.IH [OF r] obtain r2 where "out = (h1 @ html_week_close) @ r2" by blast
  with h1 have "out = html @ (html_week_open week_idx @ r1 @ html_week_close @ r2)" by simp
  then show ?case by blast
qed

lemma html_weeks_blocks:
  "html_weeks week_idx ws html = Some out \<Longrightarrow> w \<in> set ws \<Longrightarrow> d \<in> set w \<Longrightarrow>
   \<exists>block. html_day d = Some block \<and> sublist block out"
proof (induction ws arbitrary: html week_idx)
  case Nil
  then show ?case by simp
next
  case (Cons w0 ws)
  from Cons.prems(1) obtain h1 where
    d: "html_days w0 (html @ html_week_open week_idx) = Some h1"
    and r: "html_weeks (week_idx + 1) ws (h1 @ html_week_close) = Some out"
    by (auto split: option.splits)
  show ?case
  proof (cases "w = w0")
    case True
    with Cons.prems(3) have "d \<in> set w0" by simp
    from html_days_blocks [OF d this] obtain block where
      b: "html_day d = Some block" "sublist block h1" by blast
    from html_weeks_extends [OF r] obtain r2 where "out = h1 @ (html_week_close @ r2)" by auto
    with b(2) have "sublist block out" by (simp only: sublist_in_prefix)
    with b(1) show ?thesis by blast
  next
    case False
    with Cons.prems(2) have "w \<in> set ws" by simp
    from Cons.IH [OF r this Cons.prems(3)] show ?thesis .
  qed
qed

lemma html_weeks_total:
  "\<forall>w\<in>set ws. \<forall>d\<in>set w. has_all_meals d \<Longrightarrow> \<exists>out. html_weeks week_idx ws html = Some out"
proof (induction ws arbitrary: html week_idx)
  case Nil
  then show ?case by simp
next
  case (Cons w ws)
  from Cons.prems have "\<forall>d\<in>set w. has_all_meals d" by simp
  from html_days_total [OF this, of "html @ html_week_open week_idx"] obtain h1 where
    d: "html_days w (html @ html_week_open week_idx) = Some h1" by blast
  from Cons.prems have "\<forall>w\<in>set ws. \<forall>d\<in>set w. has_all_meals d" by simp
  from Cons.IH [OF this, of "week_idx + 1" "h1 @ html_week_close"] d show ?case by simp
qed

lemma html_header_fields:
  \<open>sublist (''<h1>'' @ motivation p @ ''</h1>'') (html_header p)\<close>
  \<open>sublist (''<p class="plan-feedback">'' @ feedback p @ ''</p>'') (html_header p)\<close>
  \<open>sublist (''<p class="plan-supplements">'' @ supplement_suggestion p @ ''</p>'')
     (html_header p)\<close>
  unfolding html_header_def
  by (intro sublist_in_suffix sublist_append_rightI)+

lemma html_day_block_fields:
  \<open>sublist (''<div class="day-title">'' @ day d @ '' - '' @ titles d @ ''</div>'')
     (html_day_block d b l dn)\<close>
  \<open>sublist (''<div class="details">'' @ details d @ ''</div>'') (html_day_block d b l dn)\<close>
  \<open>sublist (''<li><strong>Breakfast:</strong> '' @ suggestion b @ '' - ('' @ calories b @
      '' kcal)</li>'') (html_day_block d b l dn)\<close>
  \<open>sublist (''<li><strong>Lunch:</strong> '' @ suggestion l @ '' - ('' @ calories l @
      '' kcal)</li>'') (html_day_block d b l dn)\<close>
  \<open>sublist (''<li><strong>Dinner:</strong> '' @ suggestion dn @ '' - ('' @ calories dn @
      '' kcal)</li>'') (html_day_block d b l dn)\<close>
  unfolding html_day_block_def
  by (intro sublist_in_suffix sublist_append_rightI)+

lemma sublist_trans: "sublist xs ys \<Longrightarrow> sublist ys zs \<Longrightarrow> sublist xs zs"
  by (rule sublist_order.order.trans)

lemma example_plan_well_typed: "plan_well_typed example_plan"
  by (simp add: plan_well_typed_def has_all_meals_def example_plan_def tuesday_run_def
      monday_rest_def sunday_long_def)

text \<open>
  C3. For a plan whose days carry their meals, the page returned by
  \<^verbatim>\<open>generate_html_training_plan\<close> contains each text field character for character
  between its tags: motivation, feedback and supplement suggestion in the header, and for
  every day of every week the day label with the titles, the details, and the suggestion
  and calories of each of the three meals. Nothing is escaped: the details
  \<^verbatim>\<open>5 km <easy> & relaxed\<close> of the example appear as they are.
\<close>

theorem generate_html_interpolates_verbatim:
  assumes typed: "plan_well_typed p"
  shows \<open>sublist (''<h1>'' @ motivation p @ ''</h1>'') (generate_html_training_plan p) \<and>
    sublist (''<p class="plan-feedback">'' @ feedback p @ ''</p>'')
      (generate_html_training_plan p) \<and>
    sublist (''<p class="plan-supplements">'' @ supplement_suggestion p @ ''</p>'')
      (generate_html_training_plan p) \<and>
    (\<forall>w\<in>set (plan p). \<forall>d\<in>set w.
       \<exists>b l dn. breakfast d = Some b \<and> lunch d = Some l \<and> dinner d = Some dn \<and>
         sublist (''<div class="day-title">'' @ day d @ '' - '' @ titles d @ ''</div>'')
           (generate_html_training_plan p) \<and>
         sublist (''<div class="details">'' @ details d @ ''</div>'')
           (generate_html_training_plan p) \<and>
         sublist (''<li><strong>Breakfast:</strong> '' @ suggestion b @ '' - ('' @ calories b @
             '' kcal)</li>'') (generate_html_training_plan p) \<and>
         sublist (''<li><strong>Lunch:</strong> '' @ suggestion l @ '' - ('' @ calories l @
             '' kcal)</li>'') (generate_html_training_plan p) \<and>
         sublist (''<li><strong>Dinner:</strong> '' @ suggestion dn @ '' - ('' @ calories dn @
             '' kcal)</li>'') (generate_html_training_plan p))\<close>
proof -
  from typed have meals: "\<forall>w\<in>set (plan p). \<forall>d\<in>set w. has_all_meals d"
    by (auto simp: plan_well_typed_def list_all_iff)
  let ?init = "html_head @ html_header p @ html_grid_open"
  from html_weeks_total [OF meals, of 1 ?init] obtain html where
    w: "html_weeks 1 (plan p) ?init = Some html" by blast
  have g: "generate_html_training_plan p = html @ html_close"
    by (simp add: generate_html_training_plan_def w)
  from html_weeks_extends [OF w] obtain rest where
    html: "html = html_head @ html_header p @ html_grid_open @ rest" by auto
  have "sublist (html_header p) (generate_html_training_plan p)"
    unfolding g html by (intro sublist_in_prefix sublist_in_suffix sublist_append_rightI)
  then have header: "sublist x (generate_html_training_plan p)" if "sublist x (html_header p)"
    for x
    using that sublist_trans by blast
  have day_part: "\<exists>b l dn. breakfast d = Some b \<and> lunch d = Some l \<and> dinner d = Some dn \<and>
       (\<forall>x. sublist x (html_day_block d b l dn) \<longrightarrow> sublist x (generate_html_training_plan p))"
    if "w \<in> set (plan p)" "d \<in> set w" for w d
  proof -
    from html_weeks_blocks [OF w that] obtain block where
      b: "html_day d = Some block" "sublist block html" by blast
    from html_day_Some [OF b(1)] obtain b' l dn where
      m: "breakfast d = Some b'" "lunch d = Some l" "dinner d = Some dn"
        "block = html_day_block d b' l dn" by blast
    from b(2) have "sublist block (generate_html_training_plan p)"
      unfolding g by (rule sublist_in_prefix)
    then have "\<forall>x. sublist x (html_day_block d b' l dn) \<longrightarrow>
        sublist x (generate_html_training_plan p)"
      unfolding m(4) using sublist_trans by blast
    with m(1-3) show ?thesis by blast
  qed
  have days: \<open>\<exists>b l dn. breakfast d = Some b \<and> lunch d = Some l \<and> dinner d = Some dn \<and>
         sublist (''<div class="day-title">'' @ day d @ '' - '' @ titles d @ ''</div>'')
           (generate_html_training_plan p) \<and>
         sublist (''<div class="details">'' @ details d @ ''</div>'')
           (generate_html_training_plan p) \<and>
         sublist (''<li><strong>Breakfast:</strong> '' @ suggestion b @ '' - ('' @ calories b @
             '' kcal)</li>'') (generate_html_training_plan p) \<and>
         sublist (''<li><strong>Lunch:</strong> '' @ suggestion l @ '' - ('' @ calories l @
             '' kcal)</li>'') (generate_html_training_plan p) \<and>
         sublist (''<li><strong>Dinner:</strong> '' @ suggestion dn @ '' - ('' @ calories dn @
             '' kcal)</li>'') (generate_html_training_plan p)\<close>
    if "w \<in> set (plan p)" "d \<in> set w" for w d
  proof -
    from day_part [OF that] obtain b l dn where
      m: "breakfast d = Some b" "lunch d = Some l" "dinner d = Some dn"
      and s: "\<And>x. sublist x (html_day_block d b l dn) \<Longrightarrow>
          sublist x (generate_html_training_plan p)"
      by blast
    from m s [OF html_day_block_fields(1)] s [OF html_day_block_fields(2)]
      s [OF html_day_block_fields(3)] s [OF html_day_block_fields(4)]
      s [OF html_day_block_fields(5)]
    show ?thesis by blast
  qed
  from header [OF html_header_fields(1)] header [OF html_header_fields(2)]
    header [OF html_header_fields(3)] days
  show ?thesis by blast
qed

theorem generate_html_interpolates_verbatim_witness:
  \<open>plan_well_typed example_plan \<and>
   sublist ''<h1>You can do it</h1>'' (generate_html_training_plan example_plan) \<and>
   sublist ''<div class="details">5 km <easy> & relaxed</div>''
     (generate_html_training_plan example_plan)\<close>
proof -
  have "[tuesday_run, monday_rest] \<in> set (plan example_plan)"
    "tuesday_run \<in> set [tuesday_run, monday_rest]"
    by (simp_all add: example_plan_def)
  with generate_html_interpolates_verbatim [OF example_plan_well_typed]
  have \<open>sublist (''<h1>'' @ motivation example_plan @ ''</h1>'')
      (generate_html_training_plan example_plan)\<close>
    and \<open>sublist (''<div class="details">'' @ details tuesday_run @ ''</div>'')
      (generate_html_training_plan example_plan)\<close>
    by blast+
  then show ?thesis
    using example_plan_well_typed by (simp add: example_plan_def tuesday_run_def)
qed

section \<open>Properties of image preparation\<close>

lemma validate_image_try_cases:
  "validate_image_try env p =
     (case fs env p of
        Missing \<Rightarrow> Inr False
      | Unreadable n \<Rightarrow> Inl (OSError (strerror env p))
      | File bytes \<Rightarrow>
          (case pillow_identify env bytes of
             Inl m \<Rightarrow> Inl (PillowError m)
           | Inr img \<Rightarrow> (case img_verify img of Some m \<Rightarrow> Inl (PillowError m) | None \<Rightarrow> Inr True)))"
  by (simp add: validate_image_try_def os_path_exists_def Image_open_def open_rb_read_def
      Image_verify_def split: node.splits sum.splits option.splits)

lemma validate_image_True_iff:
  "validate_image env p = Inr True \<longleftrightarrow>
     (\<exists>bytes img. fs env p = File bytes \<and> pillow_identify env bytes = Inr img \<and>
        img_verify img = None)"
  by (auto simp: validate_image_def validate_image_try_cases
      split: node.splits sum.splits option.splits)

lemma validate_image_total: "\<exists>b. validate_image env p = Inr b"
  by (cases "validate_image_try env p") (auto simp: validate_image_def)

lemma prepare_valid:
  assumes f: "fs env p = File bytes" and i: "pillow_identify env bytes = Inr img"
    and v: "img_verify img = None"
  shows "prepare_image_for_analysis env p =
     Inr \<lparr>base64_image = b64encode env bytes,
          image_info = ImageInfo (img_size img) (img_format img) (img_mode img) (length bytes),
          data_url = ''data:image/jpeg;base64,'' @ b64encode env bytes\<rparr>"
proof -
  have "validate_image env p = Inr True"
    using f i v by (simp add: validate_image_True_iff)
  moreover have "get_image_info env p =
      ImageInfo (img_size img) (img_format img) (img_mode img) (length bytes)"
    using f i
    by (simp add: get_image_info_def get_image_info_try_def Image_open_def open_rb_read_def
        os_path_getsize_def)
  moreover have "encode_image env p = Inr (b64encode env bytes)"
    using f by (simp add: encode_image_def open_rb_read_def)
  ultimately show ?thesis
    by (simp add: prepare_image_for_analysis_def)
qed

lemma prepare_invalid:
  assumes "validate_image env p = Inr False"
  shows "prepare_image_for_analysis env p =
     Inl (ValueError (''Invalid or unreadable image: '' @ p))"
  using assms by (simp add: prepare_image_for_analysis_def)

section \<open>Claims about image preparation\<close>

text \<open>
  C7. \<^verbatim>\<open>validate_image\<close> never lets an exception out: for every path and every file
  system and Pillow it returns a boolean. The boolean is true exactly when the path names
  a file whose bytes Pillow identifies as an image and verifies. It is false for a path
  that names nothing, for one that cannot be opened for reading, for a file whose bytes
  Pillow cannot identify and for one whose image does not pass \<^verbatim>\<open>verify\<close>.
\<close>

theorem validate_image_iff:
  "validate_image env image_path =
     Inr (\<exists>bytes img. fs env image_path = File bytes \<and>
            pillow_identify env bytes = Inr img \<and> img_verify img = None) \<and>
   (fs env image_path = Missing \<longrightarrow> validate_image env image_path = Inr False) \<and>
   (\<forall>n. fs env image_path = Unreadable n \<longrightarrow> validate_image env image_path = Inr False) \<and>
   (\<forall>bytes m. fs env image_path = File bytes \<and> pillow_identify env bytes = Inl m \<longrightarrow>
      validate_image env image_path = Inr False) \<and>
   (\<forall>bytes img m. fs env image_path = File bytes \<and> pillow_identify env bytes = Inr img \<and>
      img_verify img = Some m \<longrightarrow> validate_image env image_path = Inr False)"
proof -
  obtain b where b: "validate_image env image_path = Inr b"
    using validate_image_total by blast
  have "b \<longleftrightarrow> (\<exists>bytes img. fs env image_path = File bytes \<and>
            pillow_identify env bytes = Inr img \<and> img_verify img = None)"
    using validate_image_True_iff [of env image_path] b by auto
  with b have 1: "validate_image env image_path =
     Inr (\<exists>bytes img. fs env image_path = File bytes \<and>
            pillow_identify env bytes = Inr img \<and> img_verify img = None)"
    by simp
  show ?thesis
    unfolding 1 by auto
qed

theorem validate_image_iff_witness:
  "validate_image example_env ''watch.png'' = Inr True \<and>
   fs example_env ''missing.png'' = Missing \<and>
   validate_image example_env ''missing.png'' = Inr False \<and>
   fs example_env ''photos'' = Unreadable 4096 \<and>
   validate_image example_env ''photos'' = Inr False \<and>
   fs example_env ''notes.txt'' = File [104, 101, 108, 108, 111] \<and>
   pillow_identify example_env [104, 101, 108, 108, 111] = Inl ''cannot identify image file'' \<and>
   validate_image example_env ''notes.txt'' = Inr False \<and>
   validate_image example_env ''cut.png'' = Inr False"
proof -
  have w: "\<exists>bytes img. fs example_env ''watch.png'' = File bytes \<and>
      pillow_identify example_env bytes = Inr img \<and> img_verify img = None"
    by (simp add: example_env_def watch_image_def)
  have m: "fs example_env ''missing.png'' = Missing"
    and u: "fs example_env ''photos'' = Unreadable 4096"
    and n: "fs example_env ''notes.txt'' = File [104, 101, 108, 108, 111]"
      "pillow_identify example_env [104, 101, 108, 108, 111] = Inl ''cannot identify image file''"
    and c: "fs example_env ''cut.png'' = File [137, 80]"
      "pillow_identify example_env [137, 80] =
         Inr (watch_image\<lparr>img_verify := Some ''broken PNG file''\<rparr>)"
      "img_verify (watch_image\<lparr>img_verify := Some ''broken PNG file''\<rparr>) = Some ''broken PNG file''"
    by (simp_all add: example_env_def)
  from validate_image_iff [of example_env "''watch.png''"] w
  have 1: "validate_image example_env ''watch.png'' = Inr True" by simp
  from validate_image_iff [of example_env "''missing.png''"] m
  have 2: "validate_image example_env ''missing.png'' = Inr False" by blast
  from validate_image_iff [of example_env "''photos''"] u
  have 3: "validate_image example_env ''photos'' = Inr False" by blast
  from validate_image_iff [of example_env "''notes.txt''"] n
  have 4: "validate_image example_env ''notes.txt'' = Inr False" by blast
  from validate_image_iff [of example_env "''cut.png''"] c
  have 5: "validate_image example_env ''cut.png'' = Inr False" by blast
  from 1 m 2 u 3 n 4 5 show ?thesis by blast
qed

text \<open>
  C6. \<^verbatim>\<open>prepare_image_for_analysis\<close> fails exactly when \<^verbatim>\<open>validate_image\<close> returns
  false, and then with the ValueError "Invalid or unreadable image" and with nothing else.
  It returns exactly when the path names a file whose bytes Pillow identifies and verifies,
  and the result then holds the base64 text of those bytes, the metadata of that image
  (size, format and mode as Pillow reports them, and the number of bytes of the file) and
  the data URL made of the prefix and the same base64 text.
\<close>

theorem prepare_image_for_analysis_result:
  "(\<forall>e. prepare_image_for_analysis env image_path = Inl e \<longleftrightarrow>
      validate_image env image_path = Inr False \<and>
      e = ValueError (''Invalid or unreadable image: '' @ image_path)) \<and>
   (\<forall>r. prepare_image_for_analysis env image_path = Inr r \<longleftrightarrow>
      (\<exists>bytes img. fs env image_path = File bytes \<and>
         pillow_identify env bytes = Inr img \<and> img_verify img = None \<and>
         base64_image r = b64encode env bytes \<and>
         image_info r =
           ImageInfo (img_size img) (img_format img) (img_mode img) (length bytes) \<and>
         data_url r = ''data:image/jpeg;base64,'' @ b64encode env bytes))"
proof (cases "validate_image env image_path = Inr True")
  case True
  then obtain bytes img where
    v: "fs env image_path = File bytes" "pillow_identify env bytes = Inr img"
      "img_verify img = None"
    by (auto simp: validate_image_True_iff)
  note p = prepare_valid [OF v]
  have 1: "\<forall>e. prepare_image_for_analysis env image_path = Inl e \<longleftrightarrow>
      validate_image env image_path = Inr False \<and>
      e = ValueError (''Invalid or unreadable image: '' @ image_path)"
    using True by (simp add: p)
  have 2: "prepare_image_for_analysis env image_path = Inr r \<longleftrightarrow>
      (\<exists>bytes img. fs env image_path = File bytes \<and>
         pillow_identify env bytes = Inr img \<and> img_verify img = None \<and>
         base64_image r = b64encode env bytes \<and>
         image_info r =
           ImageInfo (img_size img) (img_format img) (img_mode img) (length bytes) \<and>
         data_url r = ''data:image/jpeg;base64,'' @ b64encode env bytes)" for r
    using v by (cases r) (auto simp: p)
  from 1 2 show ?thesis by blast
next
  case False
  with validate_image_total [of env image_path] have f: "validate_image env image_path = Inr False"
    by auto
  then have no: "\<not> (\<exists>bytes img. fs env image_path = File bytes \<and>
      pillow_identify env bytes = Inr img \<and> img_verify img = None)"
    using validate_image_True_iff [of env image_path] by simp
  note p = prepare_invalid [OF f]
  have 1: "\<forall>e. prepare_image_for_analysis env image_path = Inl e \<longleftrightarrow>
      validate_image env image_path = Inr False \<and>
      e = ValueError (''Invalid or unreadable image: '' @ image_path)"
    using f by (auto simp: p)
  have 2: "prepare_image_for_analysis env image_path = Inr r \<longleftrightarrow>
      (\<exists>bytes img. fs env image_path = File bytes \<and>
         pillow_identify env bytes = Inr img \<and> img_verify img = None \<and>
         base64_image r = b64encode env bytes \<and>
         image_info r =
           ImageInfo (img_size img) (img_format img) (img_mode img) (length bytes) \<and>
         data_url r = ''data:image/jpeg;base64,'' @ b64encode env bytes)" for r
    using no by (auto simp: p)
  from 1 2 show ?thesis by blast
qed

theorem prepare_image_for_analysis_result_witness:
  "prepare_image_for_analysis example_env ''watch.png'' =
     Inr \<lparr>base64_image = ''BAA'', image_info = ImageInfo (368, 448) ''PNG'' ''RGB'' 3,
          data_url = ''data:image/jpeg;base64,BAA''\<rparr> \<and>
   validate_image example_env ''notes.txt'' = Inr False \<and>
   prepare_image_for_analysis example_env ''notes.txt'' =
     Inl (ValueError ''Invalid or unreadable image: notes.txt'')"
proof -
  let ?r = "\<lparr>base64_image = ''BAA'', image_info = ImageInfo (368, 448) ''PNG'' ''RGB'' 3,
          data_url = ''data:image/jpeg;base64,BAA''\<rparr>"
  have "\<exists>bytes img. fs example_env ''watch.png'' = File bytes \<and>
         pillow_identify example_env bytes = Inr img \<and> img_verify img = None \<and>
         base64_image ?r = b64encode example_env bytes \<and>
         image_info ?r =
           ImageInfo (img_size img) (img_format img) (img_mode img) (length bytes) \<and>
         data_url ?r = ''data:image/jpeg;base64,'' @ b64encode example_env bytes"
    by (simp add: example_env_def watch_image_def)
  with prepare_image_for_analysis_result [of example_env "''watch.png''"]
  have 1: "prepare_image_for_analysis example_env ''watch.png'' = Inr ?r" by blast
  have n: "validate_image example_env ''notes.txt'' = Inr False"
    by (simp add: validate_image_def validate_image_try_cases example_env_def)
  with prepare_image_for_analysis_result [of example_env "''notes.txt''"]
  have 2: "prepare_image_for_analysis example_env ''notes.txt'' =
     Inl (ValueError (''Invalid or unreadable image: '' @ ''notes.txt''))" by blast
  from 1 n 2 show ?thesis by simp
qed

end
